theory Spec2Isabelle
  imports Main
begin

section \<open>Python values, errors and keyword dictionaries\<close>

text \<open>
  Values that travel through keyword arguments. Numbers are kept by their integer value
  (Python's \<open>True\<close> is \<open>1\<close>), \<open>PObj\<close> is an object known only by its identity,
  \<open>PClass\<close> a class or an enumeration member known by its name, and
  \<open>PExponentialRetry\<close> is the policy object built by \<open>ExponentialRetry(**kwargs)\<close>.
\<close>

datatype pyval =
    PNone
  | PInt int
  | PStr string
  | PList "pyval list"
  | PDict "(string \<times> pyval) list"
  | PObj nat
  | PClass string
  | PExponentialRetry "(string \<times> pyval) list"

type_synonym kwargs = "(string \<times> pyval) list"

text \<open>Python truthiness: \<open>None\<close>, zero and empty containers are false, objects are true.\<close>

fun truthy :: "pyval \<Rightarrow> bool" where
  "truthy PNone = False"
| "truthy (PInt i) = (i \<noteq> 0)"
| "truthy (PStr s) = (s \<noteq> [])"
| "truthy (PList xs) = (xs \<noteq> [])"
| "truthy (PDict d) = (d \<noteq> [])"
| "truthy (PObj a) = True"
| "truthy (PClass c) = True"
| "truthy (PExponentialRetry kw) = True"

text \<open>\<open>hash(v)\<close> raises TypeError on lists and dicts.\<close>

fun hashable :: "pyval \<Rightarrow> bool" where
  "hashable (PList xs) = False"
| "hashable (PDict d) = False"
| "hashable v = True"

datatype error =
    TypeError string
  | ValueError string
  | AttributeError string
  | InvalidSchemaError string
  | InvalidContentError string
  | KeyError string
  | HttpResponseError nat string

text \<open>A keyword dictionary keeps insertion order; \<open>d[k] = v\<close> overwrites in place.\<close>

definition dict_get :: "kwargs \<Rightarrow> string \<Rightarrow> pyval option" where
  "dict_get d k = map_of d k"

fun dict_set :: "kwargs \<Rightarrow> string \<Rightarrow> pyval \<Rightarrow> kwargs" where
  "dict_set [] k v = [(k, v)]"
| "dict_set ((k', v') # d) k v = (if k' = k then (k, v) # d else (k', v') # dict_set d k v)"

text \<open>\<open>d.pop(k, None)\<close>: the value, or \<open>None\<close>, and the dictionary without the key.\<close>

definition dict_pop :: "kwargs \<Rightarrow> string \<Rightarrow> pyval \<times> kwargs" where
  "dict_pop d k =
     ((case map_of d k of None \<Rightarrow> PNone | Some v \<Rightarrow> v), filter (\<lambda>kv. fst kv \<noteq> k) d)"

definition multiple_values_msg :: "string \<Rightarrow> string" where
  "multiple_values_msg k = ''got multiple values for keyword argument '' @ k"

text \<open>
  A call \<open>f(a=x, b=y, **kwargs)\<close>: the keywords the callee receives. A key of
  \<open>kwargs\<close> that repeats a keyword written out raises TypeError before the call.
\<close>

definition bind_keywords :: "kwargs \<Rightarrow> kwargs \<Rightarrow> error + kwargs" where
  "bind_keywords named extra =
     (case find (\<lambda>kv. fst kv \<in> set (map fst named)) extra of
        Some kv \<Rightarrow> Inl (TypeError (multiple_values_msg (fst kv)))
      | None \<Rightarrow> Inr (named @ extra))"

section \<open>functools.lru\_cache\<close>

text \<open>
  The cache of one decorated function: the entries with the most recently used first,
  and the hit and miss counters that \<open>cache_info()\<close> reports.
\<close>

record ('k, 'a) lru_cache =
  entries :: "('k \<times> 'a) list"
  hits :: nat
  misses :: nat

definition maxsize :: nat where
  "maxsize = 128"

definition lru_empty :: "('k, 'a) lru_cache" where
  "lru_empty = \<lparr>entries = [], hits = 0, misses = 0\<rparr>"

definition lru_find :: "('k, 'a) lru_cache \<Rightarrow> 'k \<Rightarrow> 'a option" where
  "lru_find c k = map_of (entries c) k"

text \<open>A hit moves the entry to the front and counts.\<close>

definition lru_hit :: "('k, 'a) lru_cache \<Rightarrow> 'k \<Rightarrow> 'a \<Rightarrow> ('k, 'a) lru_cache" where
  "lru_hit c k v =
     c\<lparr>entries := (k, v) # filter (\<lambda>e. fst e \<noteq> k) (entries c), hits := hits c + 1\<rparr>"

text \<open>A miss counts before the wrapped function runs.\<close>

definition lru_miss :: "('k, 'a) lru_cache \<Rightarrow> ('k, 'a) lru_cache" where
  "lru_miss c = c\<lparr>misses := misses c + 1\<rparr>"

text \<open>
  After the wrapped function returned: the result is stored as the newest entry, and
  when the cache is full the oldest entry leaves. A key that is already present is left
  alone.
\<close>

definition lru_store :: "('k, 'a) lru_cache \<Rightarrow> 'k \<Rightarrow> 'a \<Rightarrow> ('k, 'a) lru_cache" where
  "lru_store c k v =
     (if map_of (entries c) k \<noteq> None then c
      else c\<lparr>entries := take maxsize ((k, v) # entries c)\<rparr>)"

section \<open>AvroEncoder\<close>

subsection \<open>Collaborators\<close>

record schema_properties =
  props_id :: string
  props_format :: string

record schema =
  schema_definition :: string
  schema_props :: schema_properties

text \<open>
  The schema registry client, over a registry state \<open>'r\<close>. The arguments of
  \<open>register_schema\<close> and \<open>get_schema_properties\<close> are group name, schema name,
  schema definition, format and the request keywords.
\<close>

record 'r schema_registry_client =
  register_schema ::
    "string option \<Rightarrow> string \<Rightarrow> string \<Rightarrow> string \<Rightarrow> kwargs \<Rightarrow> 'r \<Rightarrow> (error + schema_properties) \<times> 'r"
  get_schema_properties ::
    "string option \<Rightarrow> string \<Rightarrow> string \<Rightarrow> string \<Rightarrow> kwargs \<Rightarrow> 'r \<Rightarrow> (error + schema_properties) \<times> 'r"
  get_schema :: "string \<Rightarrow> kwargs \<Rightarrow> 'r \<Rightarrow> (error + schema) \<times> 'r"

text \<open>Which bound method of the client \<open>_auto_register_schema_func\<close> holds.\<close>

datatype registry_func = RegisterSchema | GetSchemaProperties

text \<open>
  Every call made on the registry client is recorded, with the arguments it is made
  with; binding them to the client's parameters is the client's part.
\<close>

datatype client_call =
    CallRegistry registry_func "string option" string string string kwargs
  | CallGetSchema string kwargs

text \<open>
  The helpers imported from \<open>_utils\<close>: the first argument is the Avro object encoder,
  known by its codec.
\<close>

record 'm utils =
  validate_schema :: "pyval option \<Rightarrow> string \<Rightarrow> error + string"
  create_message_content ::
    "pyval option \<Rightarrow> pyval \<Rightarrow> string \<Rightarrow> string \<Rightarrow> string option \<Rightarrow> kwargs \<Rightarrow> error + 'm"
  validate_message :: "'m \<Rightarrow> error + (string \<times> string)"
  decode_content ::
    "pyval option \<Rightarrow> string \<Rightarrow> string \<Rightarrow> string \<Rightarrow> string option \<Rightarrow> error + pyval"

subsection \<open>State\<close>

text \<open>
  The encoder object. \<open>ident\<close> is the object's identity, which is what \<open>self\<close>
  contributes to a cache key.
\<close>

record 'r encoder =
  ident :: nat
  schema_registry_client :: "'r schema_registry_client"
  avro_encoder :: "pyval option"
  schema_group :: "string option"
  auto_register :: bool
  auto_register_schema_func :: registry_func

type_synonym id_key = "nat \<times> string \<times> string \<times> kwargs"
type_synonym schema_key = "nat \<times> string \<times> kwargs"

text \<open>
  What the encoder's methods read and write outside the encoder: the registry behind
  the client, the record of client invocations, the two function caches (one per
  decorated function, shared by all encoders) and the lines given to the logger.
\<close>

record 'r world =
  registry :: 'r
  calls :: "client_call list"
  schema_id_cache :: "(id_key, string) lru_cache"
  schema_cache :: "(schema_key, string) lru_cache"
  info_log :: "string list"

definition init_world :: "'r \<Rightarrow> 'r world" where
  "init_world r =
     \<lparr>registry = r, calls = [], schema_id_cache = lru_empty, schema_cache = lru_empty,
      info_log = []\<rparr>"

subsection \<open>Operations\<close>

definition required_keyword_msg :: "string \<Rightarrow> string" where
  "required_keyword_msg k = CHR 0x27 # k @ CHR 0x27 # '' is a required keyword.''"

text \<open>
  \<open>__init__\<close>: the keywords \<open>client\<close>, \<open>codec\<close>, \<open>group_name\<close> and
  \<open>auto_register\<close>, each absent (\<open>None\<close>) or given. The first argument is the identity
  of the object being built.
\<close>

definition AvroEncoder_init ::
  "nat \<Rightarrow> 'r schema_registry_client option \<Rightarrow> pyval option \<Rightarrow> string option \<Rightarrow> bool option
   \<Rightarrow> error + 'r encoder" where
  "AvroEncoder_init self client codec group_name auto_reg =
     (case client of
        None \<Rightarrow> Inl (TypeError (required_keyword_msg ''client''))
      | Some cl \<Rightarrow>
          (let ar = (case auto_reg of None \<Rightarrow> False | Some b \<Rightarrow> b)
           in Inr \<lparr>ident = self,
                   schema_registry_client = cl,
                   avro_encoder = codec,
                   schema_group = group_name,
                   auto_register = ar,
                   auto_register_schema_func =
                     (if ar then RegisterSchema else GetSchemaProperties)\<rparr>))"

text \<open>Calling the bound method held in \<open>_auto_register_schema_func\<close>.\<close>

definition call_registry_func ::
  "'r encoder \<Rightarrow> string option \<Rightarrow> string \<Rightarrow> string \<Rightarrow> string \<Rightarrow> kwargs \<Rightarrow> 'r world
   \<Rightarrow> (error + schema_properties) \<times> 'r world" where
  "call_registry_func enc g n s fmt kw w =
     (let f = auto_register_schema_func enc;
          cl = schema_registry_client enc;
          (res, r') = (case f of
                         RegisterSchema \<Rightarrow> register_schema cl g n s fmt kw (registry w)
                       | GetSchemaProperties \<Rightarrow> get_schema_properties cl g n s fmt kw (registry w))
      in (res, w\<lparr>registry := r', calls := calls w @ [CallRegistry f g n s fmt kw]\<rparr>))"

definition call_get_schema ::
  "'r encoder \<Rightarrow> string \<Rightarrow> kwargs \<Rightarrow> 'r world \<Rightarrow> (error + schema) \<times> 'r world" where
  "call_get_schema enc sid kw w =
     (let (res, r') = get_schema (schema_registry_client enc) sid kw (registry w)
      in (res, w\<lparr>registry := r', calls := calls w @ [CallGetSchema sid kw]\<rparr>))"

definition unhashable_msg :: string where
  "unhashable_msg = ''unhashable type''"

definition multiple_argument_msg :: "string \<Rightarrow> string" where
  "multiple_argument_msg k = ''got multiple values for argument '' @ k"

text \<open>
  The first key of \<open>**kwargs\<close> that names a parameter already given: binding the
  arguments of the call raises TypeError for it, and the body of the callee does not run.
\<close>

definition repeated_keyword :: "string list \<Rightarrow> kwargs \<Rightarrow> string option" where
  "repeated_keyword names kw = map_option fst (find (\<lambda>kv. fst kv \<in> set names) kw)"

text \<open>
  \<open>_get_schema_id\<close> under \<open>lru_cache(maxsize=128)\<close>. The wrapper takes any
  keywords into the key; on a miss it calls the method, whose parameters \<open>self\<close>,
  \<open>schema_name\<close> and \<open>schema_str\<close> are already given by position.
\<close>

definition get_schema_id ::
  "'r encoder \<Rightarrow> string \<Rightarrow> string \<Rightarrow> kwargs \<Rightarrow> 'r world \<Rightarrow> (error + string) \<times> 'r world" where
  "get_schema_id enc schema_name schema_str kw w =
     (if \<not> list_all (\<lambda>kv. hashable (snd kv)) kw then (Inl (TypeError unhashable_msg), w)
      else
        (let key = (ident enc, schema_name, schema_str, kw)
         in case lru_find (schema_id_cache w) key of
              Some v \<Rightarrow> (Inr v, w\<lparr>schema_id_cache := lru_hit (schema_id_cache w) key v\<rparr>)
            | None \<Rightarrow>
                (let w1 = w\<lparr>schema_id_cache := lru_miss (schema_id_cache w)\<rparr>
                 in case repeated_keyword [''self'', ''schema_name'', ''schema_str''] kw of
                      Some k \<Rightarrow> (Inl (TypeError (multiple_argument_msg k)), w1)
                    | None \<Rightarrow>
                        (let (res, w2) = call_registry_func enc (schema_group enc) schema_name
                                           schema_str ''Avro'' kw w1
                         in case res of
                              Inl e \<Rightarrow> (Inl e, w2)
                            | Inr props \<Rightarrow>
                                (Inr (props_id props),
                                 w2\<lparr>schema_id_cache :=
                                      lru_store (schema_id_cache w2) key
                                        (props_id props)\<rparr>)))))"

text \<open>
  \<open>_get_schema\<close> under \<open>lru_cache(maxsize=128)\<close>, with the parameters \<open>self\<close> and
  \<open>schema_id\<close> given by position.
\<close>

definition get_schema_cached ::
  "'r encoder \<Rightarrow> string \<Rightarrow> kwargs \<Rightarrow> 'r world \<Rightarrow> (error + string) \<times> 'r world" where
  "get_schema_cached enc sid kw w =
     (if \<not> list_all (\<lambda>kv. hashable (snd kv)) kw then (Inl (TypeError unhashable_msg), w)
      else
        (let key = (ident enc, sid, kw)
         in case lru_find (schema_cache w) key of
              Some v \<Rightarrow> (Inr v, w\<lparr>schema_cache := lru_hit (schema_cache w) key v\<rparr>)
            | None \<Rightarrow>
                (let w1 = w\<lparr>schema_cache := lru_miss (schema_cache w)\<rparr>
                 in case repeated_keyword [''self'', ''schema_id''] kw of
                      Some k \<Rightarrow> (Inl (TypeError (multiple_argument_msg k)), w1)
                    | None \<Rightarrow>
                        (let (res, w2) = call_get_schema enc sid kw w1
                         in case res of
                              Inl e \<Rightarrow> (Inl e, w2)
                            | Inr sch \<Rightarrow>
                                (Inr (schema_definition sch),
                                 w2\<lparr>schema_cache :=
                                      lru_store (schema_cache w2) key
                                        (schema_definition sch)\<rparr>)))))"

definition group_name_msg :: string where
  "group_name_msg =
     CHR 0x27 # ''group_name'' @ CHR 0x27 # '' in constructor cannot be None, if encoding.''"

text \<open>\<open>request_options or {}\<close>.\<close>

definition or_empty :: "kwargs option \<Rightarrow> kwargs" where
  "or_empty ro = (case ro of None \<Rightarrow> [] | Some d \<Rightarrow> d)"

text \<open>\<open>not self._schema_group\<close>: the group is \<open>None\<close> or the empty string.\<close>

definition no_group :: "string option \<Rightarrow> bool" where
  "no_group g = (case g of None \<Rightarrow> True | Some s \<Rightarrow> s = [])"

text \<open>
  \<open>encode\<close>. The last call writes out the keywords \<open>content\<close>,
  \<open>raw_input_schema\<close>, \<open>schema_id\<close> and \<open>message_type\<close> and adds the caller's
  \<open>**kwargs\<close>.
\<close>

definition encode ::
  "'m utils \<Rightarrow> 'r encoder \<Rightarrow> pyval \<Rightarrow> string \<Rightarrow> string option \<Rightarrow> kwargs option \<Rightarrow> kwargs
   \<Rightarrow> 'r world \<Rightarrow> (error + 'm) \<times> 'r world" where
  "encode U enc content schema_str message_type request_options kw w =
     (if no_group (schema_group enc) then (Inl (TypeError group_name_msg), w)
      else
        (case validate_schema U (avro_encoder enc) schema_str of
           Inl e \<Rightarrow> (Inl e, w)
         | Inr schema_fullname \<Rightarrow>
             (let cache_misses = misses (schema_id_cache w);
                  (res, w1) = get_schema_id enc schema_fullname schema_str
                                (or_empty request_options) w
              in case res of
                   Inl e \<Rightarrow> (Inl e, w1)
                 | Inr sid \<Rightarrow>
                     (let w2 = (if misses (schema_id_cache w1) > cache_misses
                                then w1\<lparr>info_log := info_log w1 @
                                          [''New entry has been added to schema ID cache.'']\<rparr>
                                else w1)
                      in case repeated_keyword
                                [''content'', ''raw_input_schema'', ''schema_id'',
                                 ''message_type''] kw of
                           Some k \<Rightarrow> (Inl (TypeError (multiple_values_msg k)), w2)
                         | None \<Rightarrow>
                             (create_message_content U (avro_encoder enc) content schema_str
                                sid message_type kw, w2)))))"

definition decode ::
  "'m utils \<Rightarrow> 'r encoder \<Rightarrow> 'm \<Rightarrow> string option \<Rightarrow> kwargs option \<Rightarrow> 'r world
   \<Rightarrow> (error + pyval) \<times> 'r world" where
  "decode U enc message readers_schema request_options w =
     (case validate_message U message of
        Inl e \<Rightarrow> (Inl e, w)
      | Inr (sid, content) \<Rightarrow>
          (let cache_misses = misses (schema_cache w);
               (res, w1) = get_schema_cached enc sid (or_empty request_options) w
           in case res of
                Inl e \<Rightarrow> (Inl e, w1)
              | Inr sdef \<Rightarrow>
                  (let w2 = (if misses (schema_cache w1) > cache_misses
                             then w1\<lparr>info_log := info_log w1 @
                                       [''New entry has been added to schema cache.'']\<rparr>
                             else w1)
                   in (decode_content U (avro_encoder enc) content sid sdef readers_schema,
                       w2))))"

subsection \<open>Sequences of cached lookups\<close>









text \<open>The bound method that \<open>_auto_register_schema_func\<close> holds.\<close>

definition registry_method ::
  "'r encoder \<Rightarrow> string option \<Rightarrow> string \<Rightarrow> string \<Rightarrow> string \<Rightarrow> kwargs \<Rightarrow> 'r
   \<Rightarrow> (error + schema_properties) \<times> 'r" where
  "registry_method enc =
     (case auto_register_schema_func enc of
        RegisterSchema \<Rightarrow> register_schema (schema_registry_client enc)
      | GetSchemaProperties \<Rightarrow> get_schema_properties (schema_registry_client enc))"

subsection \<open>A reference registry\<close>

text \<open>
  Modelled from the spec: the SchemaRegistryClient, which is not part of the sources at
  hand, as the documentation of AvroEncoder describes it.
\<close>

type_synonym ref_registry = "((string \<times> string \<times> string \<times> string) \<times> string) list"

definition fresh_id :: "ref_registry \<Rightarrow> string" where
  "fresh_id r = ''id-'' @ replicate (length r) (CHR ''x'')"

definition not_found :: error where
  "not_found = HttpResponseError 404 ''Schema not found''"

definition ref_get_schema_properties ::
  "string option \<Rightarrow> string \<Rightarrow> string \<Rightarrow> string \<Rightarrow> kwargs \<Rightarrow> ref_registry
   \<Rightarrow> (error + schema_properties) \<times> ref_registry" where
  "ref_get_schema_properties g n s fmt kw r =
     (case g of
        None \<Rightarrow> (Inl not_found, r)
      | Some gn \<Rightarrow>
          (case map_of r (gn, n, s, fmt) of
             None \<Rightarrow> (Inl not_found, r)
           | Some i \<Rightarrow> (Inr \<lparr>props_id = i, props_format = fmt\<rparr>, r)))"

definition ref_register_schema ::
  "string option \<Rightarrow> string \<Rightarrow> string \<Rightarrow> string \<Rightarrow> kwargs \<Rightarrow> ref_registry
   \<Rightarrow> (error + schema_properties) \<times> ref_registry" where
  "ref_register_schema g n s fmt kw r =
     (case g of
        None \<Rightarrow> (Inl not_found, r)
      | Some gn \<Rightarrow>
          (case map_of r (gn, n, s, fmt) of
             None \<Rightarrow> (Inr \<lparr>props_id = fresh_id r, props_format = fmt\<rparr>,
                       r @ [((gn, n, s, fmt), fresh_id r)])
           | Some i \<Rightarrow> (Inr \<lparr>props_id = i, props_format = fmt\<rparr>, r)))"

definition ref_get_schema ::
  "string \<Rightarrow> kwargs \<Rightarrow> ref_registry \<Rightarrow> (error + schema) \<times> ref_registry" where
  "ref_get_schema i kw r =
     (case find (\<lambda>e. snd e = i) r of
        None \<Rightarrow> (Inl not_found, r)
      | Some ((gn, n, s, fmt), j) \<Rightarrow>
          (Inr \<lparr>schema_definition = s,
                schema_props = \<lparr>props_id = j, props_format = fmt\<rparr>\<rparr>, r))"

definition ref_client :: "ref_registry schema_registry_client" where
  "ref_client =
     \<lparr>register_schema = ref_register_schema,
      get_schema_properties = ref_get_schema_properties,
      get_schema = ref_get_schema\<rparr>"

text \<open>Stand-ins for the helpers of \<open>_utils\<close> in the examples.\<close>

definition ref_utils :: "(string \<times> string) utils" where
  "ref_utils =
     \<lparr>validate_schema = (\<lambda>codec s. if s = [] then Inl (InvalidSchemaError s) else Inr (''ns.'' @ s)),
      create_message_content = (\<lambda>codec content s sid mt kw. Inr (''avro/binary+'' @ sid, s)),
      validate_message = (\<lambda>m. Inr (drop 12 (fst m), snd m)),
      decode_content = (\<lambda>codec content sid sdef rs. Inr (PStr content))\<rparr>"

definition demo_encoder :: "bool \<Rightarrow> ref_registry encoder" where
  "demo_encoder ar =
     \<lparr>ident = 1, schema_registry_client = ref_client, avro_encoder = None,
      schema_group = Some ''g'', auto_register = ar,
      auto_register_schema_func = (if ar then RegisterSchema else GetSchemaProperties)\<rparr>"

definition demo_registry :: ref_registry where
  "demo_registry = [((''g'', ''ns.rec'', ''rec'', ''Avro''), ''id-'')]"

definition nogroup_encoder :: "ref_registry encoder" where
  "nogroup_encoder =
     \<lparr>ident = 1, schema_registry_client = ref_client, avro_encoder = None,
      schema_group = None, auto_register = False,
      auto_register_schema_func = GetSchemaProperties\<rparr>"

section \<open>The asynchronous data lake FileSystemClient\<close>

subsection \<open>Objects\<close>

text \<open>A transport, alone or inside an \<open>AsyncTransportWrapper\<close>.\<close>

datatype transport = Transport nat | AsyncTransportWrapper transport

record async_pipeline =
  transport :: transport
  impl_policies :: "pyval list"

text \<open>
  A generated \<open>AzureDataLakeStorageRESTAPI\<close> client: the URL and the keywords it was
  built with, its pipeline, and \<open>_config.version\<close>.
\<close>

record rest_client =
  rest_url :: string
  rest_keywords :: kwargs
  rest_pipeline :: async_pipeline
  config_version :: string

text \<open>The attributes of a FileSystemClient; \<open>'cc\<close> is the blob ContainerClient.\<close>

record 'cc fs_client =
  url :: string
  file_system_name :: string
  raw_credential :: pyval
  config :: pyval
  pipeline :: async_pipeline
  hosts :: pyval
  require_encryption :: pyval
  key_encryption_key :: pyval
  key_resolver_function :: pyval
  blob_account_url :: string
  container_client :: 'cc
  client :: rest_client
  datalake_client_for_blob_operation :: rest_client
  loop :: pyval

text \<open>
  The arguments a \<open>DataLakeFileClient\<close> or \<open>DataLakeDirectoryClient\<close> is built
  with.
\<close>

record child_args =
  child_account_url :: string
  child_file_system_name :: string
  child_path :: pyval
  child_credential :: pyval
  child_api_version :: string
  child_hosts :: pyval
  child_configuration :: pyval
  child_pipeline :: async_pipeline
  child_require_encryption :: pyval
  child_key_encryption_key :: pyval
  child_key_resolver_function :: pyval
  child_loop :: pyval

datatype path_client = DataLakeFileClient child_args | DataLakeDirectoryClient child_args

text \<open>
  The constructors of the two child classes, which lie outside this class: each returns
  a client \<open>'pc\<close> or raises.
\<close>

record 'pc child_classes =
  DataLakeFileClient_new :: "child_args \<Rightarrow> error + 'pc"
  DataLakeDirectoryClient_new :: "child_args \<Rightarrow> error + 'pc"

text \<open>\<open>functools.partial\<close> of a generated operation, and the pager built around it.\<close>

datatype rest_operation = ListPaths rest_client | ListBlobHierarchySegment rest_client

record partial =
  func :: rest_operation
  partial_keywords :: kwargs

record item_paged =
  command :: partial
  paged_args :: "pyval list"
  paged_keywords :: kwargs

text \<open>
  What lies outside the class: the base class and the other classes of the package, the
  blob ContainerClient and the generated operations, over a service state \<open>'s\<close>. A
  method of the ContainerClient is called by its name with positional and keyword
  arguments. \<open>process_storage_error\<close> never returns: it raises the error it makes of
  the one it is given. The tracing decorators of the core library, which take tracing
  keywords of their own before the method is called, are left out.
\<close>

record ('cc, 's) fs_env =
  base_init :: "string \<Rightarrow> string \<Rightarrow> pyval \<Rightarrow> kwargs \<Rightarrow> error + 'cc fs_client"
  ContainerClient_new :: "string \<Rightarrow> string \<Rightarrow> pyval \<Rightarrow> pyval \<Rightarrow> kwargs \<Rightarrow> error + 'cc"
  container_hosts :: "'cc \<Rightarrow> pyval"
  container_url :: "'cc \<Rightarrow> string"
  container_call :: "'cc \<Rightarrow> string \<Rightarrow> pyval list \<Rightarrow> kwargs \<Rightarrow> 's \<Rightarrow> (error + pyval) \<times> 's"
  get_api_version :: "kwargs \<Rightarrow> error + string"
  generated_default_version :: string
  api_version_property :: "'cc fs_client \<Rightarrow> string"
  convert_from_container_props :: "pyval \<Rightarrow> pyval"
  PublicAccess_from_generated :: "pyval \<Rightarrow> pyval"
  undelete_path_options :: "'cc fs_client \<Rightarrow> string \<Rightarrow> string \<Rightarrow> string \<times> string \<times> pyval"
  path_undelete :: "rest_client \<Rightarrow> pyval \<Rightarrow> kwargs \<Rightarrow> 's \<Rightarrow> (error + bool) \<times> 's"
  process_storage_error :: "error \<Rightarrow> error"
  str_of_object :: "pyval \<Rightarrow> string"

text \<open>Every call that hands a request to the service is recorded.\<close>

datatype request_call =
    ContainerCall string "pyval list" kwargs
  | PathUndelete rest_client pyval kwargs

record 's fs_world =
  service :: 's
  requests :: "request_call list"

subsection \<open>Construction\<close>

definition AzureDataLakeStorageRESTAPI_new ::
  "('cc, 's) fs_env \<Rightarrow> string \<Rightarrow> kwargs \<Rightarrow> async_pipeline \<Rightarrow> rest_client" where
  "AzureDataLakeStorageRESTAPI_new E u kws pl =
     \<lparr>rest_url = u, rest_keywords = kws, rest_pipeline = pl,
      config_version = generated_default_version E\<rparr>"

text \<open>\<open>kwargs.get('retry_policy') or ExponentialRetry(**kwargs)\<close>.\<close>

definition retry_policy_or_default :: "kwargs \<Rightarrow> pyval" where
  "retry_policy_or_default kw =
     (case dict_get kw ''retry_policy'' of
        None \<Rightarrow> PExponentialRetry kw
      | Some v \<Rightarrow> if truthy v then v else PExponentialRetry kw)"

text \<open>\<open>kwargs.get('loop', None)\<close>.\<close>

definition get_or_none :: "kwargs \<Rightarrow> string \<Rightarrow> pyval" where
  "get_or_none kw k = (case dict_get kw k of None \<Rightarrow> PNone | Some v \<Rightarrow> v)"

definition FileSystemClient_init ::
  "('cc, 's) fs_env \<Rightarrow> string \<Rightarrow> string \<Rightarrow> pyval \<Rightarrow> kwargs \<Rightarrow> error + 'cc fs_client" where
  "FileSystemClient_init E account_url fs_name credential kw =
     (let kw1 = dict_set kw ''retry_policy'' (retry_policy_or_default kw)
      in case base_init E account_url fs_name credential kw1 of
           Inl e \<Rightarrow> Inl e
         | Inr self0 \<Rightarrow>
             (let kw2 = snd (dict_pop kw1 ''_hosts'')
              in case ContainerClient_new E (blob_account_url self0) (file_system_name self0)
                        credential (container_hosts E (container_client self0)) kw2 of
                   Inl e \<Rightarrow> Inl e
                 | Inr cc \<Rightarrow>
                     (let c1 = AzureDataLakeStorageRESTAPI_new E (url self0)
                                 [(''base_url'', PStr (url self0)),
                                  (''file_system'', PStr (file_system_name self0))]
                                 (pipeline self0);
                          c2 = AzureDataLakeStorageRESTAPI_new E (container_url E cc)
                                 [(''base_url'', PStr (container_url E cc)),
                                  (''file_system'', PStr (file_system_name self0))]
                                 (pipeline self0)
                      in case get_api_version E kw2 of
                           Inl e \<Rightarrow> Inl e
                         | Inr v \<Rightarrow>
                             Inr (self0\<lparr>container_client := cc,
                                        client := c1\<lparr>config_version := v\<rparr>,
                                        datalake_client_for_blob_operation :=
                                          c2\<lparr>config_version := v\<rparr>,
                                        loop := get_or_none kw2 ''loop''\<rparr>))))"

subsection \<open>Operations that await the ContainerClient\<close>

text \<open>\<open>await self._container_client.name(*args, **kws)\<close>.\<close>

definition await_container ::
  "('cc, 's) fs_env \<Rightarrow> 'cc fs_client \<Rightarrow> string \<Rightarrow> pyval list \<Rightarrow> kwargs \<Rightarrow> 's fs_world
   \<Rightarrow> (error + pyval) \<times> 's fs_world" where
  "await_container E self name args kws w =
     (let (res, s') = container_call E (container_client self) name args kws (service w)
      in (res, \<lparr>service = s', requests = requests w @ [ContainerCall name args kws]\<rparr>))"

definition create_file_system ::
  "('cc, 's) fs_env \<Rightarrow> 'cc fs_client \<Rightarrow> pyval \<Rightarrow> pyval \<Rightarrow> kwargs \<Rightarrow> 's fs_world
   \<Rightarrow> (error + pyval) \<times> 's fs_world" where
  "create_file_system E self metadata public_access kw w =
     (case bind_keywords [(''metadata'', metadata), (''public_access'', public_access)] kw of
        Inl e \<Rightarrow> (Inl e, w)
      | Inr kws \<Rightarrow> await_container E self ''create_container'' [] kws w)"

definition exists_file_system ::
  "('cc, 's) fs_env \<Rightarrow> 'cc fs_client \<Rightarrow> kwargs \<Rightarrow> 's fs_world \<Rightarrow> (error + pyval) \<times> 's fs_world" where
  "exists_file_system E self kw w = await_container E self ''exists'' [] kw w"

definition delete_file_system ::
  "('cc, 's) fs_env \<Rightarrow> 'cc fs_client \<Rightarrow> kwargs \<Rightarrow> 's fs_world \<Rightarrow> (error + pyval) \<times> 's fs_world" where
  "delete_file_system E self kw w =
     (case await_container E self ''delete_container'' [] kw w of
        (Inl e, w') \<Rightarrow> (Inl e, w')
      | (Inr r, w') \<Rightarrow> (Inr PNone, w'))"

definition get_file_system_properties ::
  "('cc, 's) fs_env \<Rightarrow> 'cc fs_client \<Rightarrow> kwargs \<Rightarrow> 's fs_world \<Rightarrow> (error + pyval) \<times> 's fs_world" where
  "get_file_system_properties E self kw w =
     (case await_container E self ''get_container_properties'' [] kw w of
        (Inl e, w') \<Rightarrow> (Inl e, w')
      | (Inr container_properties, w') \<Rightarrow>
          (Inr (convert_from_container_props E container_properties), w'))"

definition set_file_system_metadata ::
  "('cc, 's) fs_env \<Rightarrow> 'cc fs_client \<Rightarrow> pyval \<Rightarrow> kwargs \<Rightarrow> 's fs_world
   \<Rightarrow> (error + pyval) \<times> 's fs_world" where
  "set_file_system_metadata E self metadata kw w =
     (case bind_keywords [(''metadata'', metadata)] kw of
        Inl e \<Rightarrow> (Inl e, w)
      | Inr kws \<Rightarrow> await_container E self ''set_container_metadata'' [] kws w)"

definition set_file_system_access_policy ::
  "('cc, 's) fs_env \<Rightarrow> 'cc fs_client \<Rightarrow> pyval \<Rightarrow> pyval \<Rightarrow> kwargs \<Rightarrow> 's fs_world
   \<Rightarrow> (error + pyval) \<times> 's fs_world" where
  "set_file_system_access_policy E self signed_identifiers public_access kw w =
     (case bind_keywords [(''public_access'', public_access)] kw of
        Inl e \<Rightarrow> (Inl e, w)
      | Inr kws \<Rightarrow>
          await_container E self ''set_container_access_policy'' [signed_identifiers] kws w)"

definition not_subscriptable_msg :: string where
  "not_subscriptable_msg = ''object is not subscriptable''"

text \<open>\<open>d[k]\<close> on a result.\<close>

definition subscript :: "pyval \<Rightarrow> string \<Rightarrow> error + pyval" where
  "subscript d k =
     (case d of
        PDict items \<Rightarrow> (case map_of items k of None \<Rightarrow> Inl (KeyError k) | Some v \<Rightarrow> Inr v)
      | _ \<Rightarrow> Inl (TypeError not_subscriptable_msg))"

definition get_file_system_access_policy ::
  "('cc, 's) fs_env \<Rightarrow> 'cc fs_client \<Rightarrow> kwargs \<Rightarrow> 's fs_world \<Rightarrow> (error + pyval) \<times> 's fs_world" where
  "get_file_system_access_policy E self kw w =
     (case await_container E self ''get_container_access_policy'' [] kw w of
        (Inl e, w') \<Rightarrow> (Inl e, w')
      | (Inr access_policy, w') \<Rightarrow>
          (case subscript access_policy ''public_access'' of
             Inl e \<Rightarrow> (Inl e, w')
           | Inr pa \<Rightarrow>
               (case subscript access_policy ''signed_identifiers'' of
                  Inl e \<Rightarrow> (Inl e, w')
                | Inr si \<Rightarrow>
                    (Inr (PDict [(''public_access'', PublicAccess_from_generated E pa),
                                 (''signed_identifiers'', si)]), w'))))"

subsection \<open>Operations that build a pager\<close>

definition get_paths ::
  "('cc, 's) fs_env \<Rightarrow> 'cc fs_client \<Rightarrow> pyval \<Rightarrow> pyval \<Rightarrow> pyval \<Rightarrow> kwargs \<Rightarrow> 's fs_world
   \<Rightarrow> (error + item_paged) \<times> 's fs_world" where
  "get_paths E self path recursive max_results kw w =
     (let (timeout, kw1) = dict_pop kw ''timeout''
      in case bind_keywords [(''path'', path), (''timeout'', timeout)] kw1 of
           Inl e \<Rightarrow> (Inl e, w)
         | Inr ckw \<Rightarrow>
             (case bind_keywords
                     [(''path'', path), (''max_results'', max_results),
                      (''page_iterator_class'', PClass ''PathPropertiesPaged'')] kw1 of
                Inl e \<Rightarrow> (Inl e, w)
              | Inr pkw \<Rightarrow>
                  (Inr \<lparr>command = \<lparr>func = ListPaths (client self), partial_keywords = ckw\<rparr>,
                        paged_args = [recursive], paged_keywords = pkw\<rparr>, w)))"

definition list_deleted_paths ::
  "('cc, 's) fs_env \<Rightarrow> 'cc fs_client \<Rightarrow> kwargs \<Rightarrow> 's fs_world
   \<Rightarrow> (error + item_paged) \<times> 's fs_world" where
  "list_deleted_paths E self kw w =
     (let (path_prefix, kw1) = dict_pop kw ''path_prefix'';
          (timeout, kw2) = dict_pop kw1 ''timeout'';
          (results_per_page, kw3) = dict_pop kw2 ''results_per_page''
      in case bind_keywords
                [(''showonly'', PClass ''ListBlobsIncludeItem.deleted''), (''timeout'', timeout)]
                kw3 of
           Inl e \<Rightarrow> (Inl e, w)
         | Inr ckw \<Rightarrow>
             (case bind_keywords
                     [(''prefix'', path_prefix),
                      (''page_iterator_class'', PClass ''DeletedPathPropertiesPaged''),
                      (''results_per_page'', results_per_page)] kw3 of
                Inl e \<Rightarrow> (Inl e, w)
              | Inr pkw \<Rightarrow>
                  (Inr \<lparr>command =
                          \<lparr>func = ListBlobHierarchySegment
                                    (datalake_client_for_blob_operation self),
                           partial_keywords = ckw\<rparr>,
                        paged_args = [], paged_keywords = pkw\<rparr>, w)))"

subsection \<open>Child clients\<close>

text \<open>
  \<open>x.get('name')\<close> where \<open>x\<close> has the accessor (a properties object, a mapping),
  \<open>str(x)\<close> otherwise.
\<close>

definition py_str :: "('cc, 's) fs_env \<Rightarrow> pyval \<Rightarrow> string" where
  "py_str E v = (case v of PStr s \<Rightarrow> s | PNone \<Rightarrow> ''None'' | _ \<Rightarrow> str_of_object E v)"

definition name_of :: "('cc, 's) fs_env \<Rightarrow> pyval \<Rightarrow> pyval" where
  "name_of E x =
     (case x of
        PDict items \<Rightarrow> (case map_of items ''name'' of None \<Rightarrow> PNone | Some v \<Rightarrow> v)
      | _ \<Rightarrow> PStr (py_str E x))"

definition child_arguments ::
  "('cc, 's) fs_env \<Rightarrow> 'cc fs_client \<Rightarrow> pyval \<Rightarrow> child_args" where
  "child_arguments E self name =
     \<lparr>child_account_url = url self,
      child_file_system_name = file_system_name self,
      child_path = name,
      child_credential = raw_credential self,
      child_api_version = api_version_property E self,
      child_hosts = hosts self,
      child_configuration = config self,
      child_pipeline =
        \<lparr>transport = AsyncTransportWrapper (transport (pipeline self)),
         impl_policies = impl_policies (pipeline self)\<rparr>,
      child_require_encryption = require_encryption self,
      child_key_encryption_key = key_encryption_key self,
      child_key_resolver_function = key_resolver_function self,
      child_loop = loop self\<rparr>"

definition get_directory_client ::
  "'pc child_classes \<Rightarrow> ('cc, 's) fs_env \<Rightarrow> 'cc fs_client \<Rightarrow> pyval \<Rightarrow> 's fs_world
   \<Rightarrow> (error + 'pc) \<times> 's fs_world" where
  "get_directory_client K E self directory w =
     (let directory_name = name_of E directory
      in (DataLakeDirectoryClient_new K (child_arguments E self directory_name), w))"

definition get_file_client ::
  "'pc child_classes \<Rightarrow> ('cc, 's) fs_env \<Rightarrow> 'cc fs_client \<Rightarrow> pyval \<Rightarrow> 's fs_world
   \<Rightarrow> (error + 'pc) \<times> 's fs_world" where
  "get_file_client K E self file_path w =
     (let file_path' = name_of E file_path
      in (DataLakeFileClient_new K (child_arguments E self file_path'), w))"

definition get_root_directory_client ::
  "'pc child_classes \<Rightarrow> ('cc, 's) fs_env \<Rightarrow> 'cc fs_client \<Rightarrow> 's fs_world
   \<Rightarrow> (error + 'pc) \<times> 's fs_world" where
  "get_root_directory_client K E self w = get_directory_client K E self (PStr ''/'') w"

text \<open>\<open>except HttpResponseError\<close> catches the class and its subclasses.\<close>

definition is_http_response_error :: "error \<Rightarrow> bool" where
  "is_http_response_error e = (case e of HttpResponseError c m \<Rightarrow> True | _ \<Rightarrow> False)"

text \<open>
  \<open>_undelete_path\<close>. The call of the generated operation writes out the keywords
  \<open>undelete_source\<close> and \<open>cls\<close> and adds the caller's \<open>**kwargs\<close>; the call and the
  construction of the child client are both inside the \<open>try\<close>.
\<close>

definition undelete_path ::
  "'pc child_classes \<Rightarrow> ('cc, 's) fs_env \<Rightarrow> 'cc fs_client \<Rightarrow> string \<Rightarrow> string \<Rightarrow> kwargs
   \<Rightarrow> 's fs_world \<Rightarrow> (error + 'pc) \<times> 's fs_world" where
  "undelete_path K E self deleted_path_name deletion_id kw w =
     (let (q, u, undelete_source) = undelete_path_options E self deleted_path_name deletion_id;
          pl = \<lparr>transport = AsyncTransportWrapper (transport (pipeline self)),
                impl_policies = impl_policies (pipeline self)\<rparr>;
          path_client = AzureDataLakeStorageRESTAPI_new E u
                          [(''filesystem'', PStr (file_system_name self)),
                           (''path'', PStr deleted_path_name)] pl;
          (r, w2) =
            (case bind_keywords
                    [(''undelete_source'', undelete_source), (''cls'', PClass ''is_file_path'')]
                    kw of
               Inl e \<Rightarrow> (Inl e, w)
             | Inr kws \<Rightarrow>
                 (let (res, s') = path_undelete E path_client undelete_source kw (service w);
                      w' = \<lparr>service = s',
                            requests = requests w @
                              [PathUndelete path_client undelete_source kw]\<rparr>
                  in case res of
                       Inl e \<Rightarrow> (Inl e, w')
                     | Inr is_file \<Rightarrow>
                         (if is_file
                          then get_file_client K E self (PStr deleted_path_name) w'
                          else get_directory_client K E self (PStr deleted_path_name) w')))
      in case r of
           Inr c \<Rightarrow> (Inr c, w2)
         | Inl e \<Rightarrow>
             (if is_http_response_error e then (Inl (process_storage_error E e), w2)
              else (Inl e, w2)))"

subsection \<open>The claim's reading of a thin operation\<close>

text \<open>
  Following the claim's words: a delegation is one call of the named ContainerClient
  method with the given arguments, whose result, when there is one, goes through a
  conversion.
\<close>

definition delegate ::
  "('cc, 's) fs_env \<Rightarrow> 'cc fs_client \<Rightarrow> string \<Rightarrow> pyval list \<Rightarrow> kwargs
   \<Rightarrow> (pyval \<Rightarrow> error + pyval) \<Rightarrow> 's fs_world \<Rightarrow> (error + pyval) \<times> 's fs_world" where
  "delegate E self name args kws conv w =
     (let (res, s') = container_call E (container_client self) name args kws (service w);
          w' = \<lparr>service = s', requests = requests w @ [ContainerCall name args kws]\<rparr>
      in case res of Inl e \<Rightarrow> (Inl e, w') | Inr r \<Rightarrow> (conv r, w'))"

text \<open>The conversion of an access policy: \<open>PublicAccess._from_generated\<close> on one item.\<close>

definition access_policy_from_generated :: "('cc, 's) fs_env \<Rightarrow> pyval \<Rightarrow> error + pyval" where
  "access_policy_from_generated E r =
     (case subscript r ''public_access'' of
        Inl e \<Rightarrow> Inl e
      | Inr pa \<Rightarrow>
          (case subscript r ''signed_identifiers'' of
             Inl e \<Rightarrow> Inl e
           | Inr si \<Rightarrow>
               Inr (PDict [(''public_access'', PublicAccess_from_generated E pa),
                           (''signed_identifiers'', si)])))"

text \<open>The keys of a keyword dictionary.\<close>

definition keys :: "kwargs \<Rightarrow> string set" where
  "keys kw = set (map fst kw)"

text \<open>
  Following the claim's words: what a child client built for the input \<open>x\<close> takes
  from its parent.
\<close>

definition child_of :: "('cc, 's) fs_env \<Rightarrow> 'cc fs_client \<Rightarrow> pyval \<Rightarrow> child_args \<Rightarrow> bool" where
  "child_of E self x args =
     ((\<forall>items. x = PDict items \<longrightarrow>
         child_path args = (case map_of items ''name'' of None \<Rightarrow> PNone | Some v \<Rightarrow> v)) \<and>
      (\<forall>s. x = PStr s \<longrightarrow> child_path args = PStr s) \<and>
      ((\<forall>items. x \<noteq> PDict items) \<longrightarrow> child_path args = PStr (py_str E x)) \<and>
      child_account_url args = url self \<and>
      child_file_system_name args = file_system_name self \<and>
      child_credential args = raw_credential self \<and>
      child_api_version args = api_version_property E self \<and>
      transport (child_pipeline args) = AsyncTransportWrapper (transport (pipeline self)) \<and>
      impl_policies (child_pipeline args) = impl_policies (pipeline self))"

subsection \<open>A reference service\<close>

text \<open>
  Modelled from the spec: the base class, the blob ContainerClient and the helpers of
  the package, which are not part of the sources at hand. The service state is the list
  of the containers that exist.
\<close>

type_synonym demo_cc = "string \<times> string \<times> kwargs"

definition demo_pipeline :: async_pipeline where
  "demo_pipeline = \<lparr>transport = Transport 7, impl_policies = [PObj 1, PObj 2]\<rparr>"

definition demo_rest :: "string \<Rightarrow> rest_client" where
  "demo_rest u =
     \<lparr>rest_url = u, rest_keywords = [], rest_pipeline = demo_pipeline,
      config_version = ''2019-02-02''\<rparr>"

definition demo_base_init :: "string \<Rightarrow> string \<Rightarrow> pyval \<Rightarrow> kwargs \<Rightarrow> error + demo_cc fs_client" where
  "demo_base_init a f c kw =
     (if f = [] then Inl (ValueError ''Please specify a file system name.'')
      else Inr \<lparr>url = a @ ''/'' @ f, file_system_name = f, raw_credential = c,
                config = PObj 3, pipeline = demo_pipeline, hosts = PObj 4,
                require_encryption = PInt 0, key_encryption_key = PNone,
                key_resolver_function = PNone, blob_account_url = a,
                container_client = (a, f, kw), client = demo_rest (a @ ''/'' @ f),
                datalake_client_for_blob_operation = demo_rest (a @ ''/'' @ f),
                loop = PNone\<rparr>)"

definition demo_container_call ::
  "demo_cc \<Rightarrow> string \<Rightarrow> pyval list \<Rightarrow> kwargs \<Rightarrow> string list \<Rightarrow> (error + pyval) \<times> string list" where
  "demo_container_call cc name args kws s =
     (let c = fst (snd cc)
      in if name = ''exists'' then (Inr (PInt (if c \<in> set s then 1 else 0)), s)
         else if name = ''create_container'' then
           (if c \<in> set s then (Inl (HttpResponseError 409 ''ContainerAlreadyExists''), s)
            else (Inr (PDict [(''etag'', PStr ''0x1'')]), c # s))
         else if c \<notin> set s then (Inl (HttpResponseError 404 ''ContainerNotFound''), s)
         else if name = ''delete_container'' then (Inr PNone, removeAll c s)
         else if name = ''get_container_properties'' then (Inr (PDict [(''name'', PStr c)]), s)
         else if name = ''get_container_access_policy'' then
           (Inr (PDict [(''public_access'', PStr ''container''),
                        (''signed_identifiers'', PList [])]), s)
         else (Inr (PDict [(''etag'', PStr ''0x2'')]), s))"

definition demo_get_api_version :: "kwargs \<Rightarrow> error + string" where
  "demo_get_api_version kw =
     (case dict_get kw ''api_version'' of
        Some (PStr v) \<Rightarrow>
          (if v \<in> set [''2019-02-02'', ''2020-06-12''] then Inr v
           else Inl (ValueError ''Unsupported API version''))
      | _ \<Rightarrow> Inr ''2020-06-12'')"

definition demo_env :: "(demo_cc, string list) fs_env" where
  "demo_env =
     \<lparr>base_init = demo_base_init,
      ContainerClient_new = (\<lambda>a f c h kw. Inr (a, f, kw)),
      container_hosts = (\<lambda>cc. PObj 4),
      container_url = (\<lambda>cc. fst cc @ ''/'' @ fst (snd cc)),
      container_call = demo_container_call,
      get_api_version = demo_get_api_version,
      generated_default_version = ''2019-02-02'',
      api_version_property = (\<lambda>self. config_version (client self)),
      convert_from_container_props = (\<lambda>p. p),
      PublicAccess_from_generated =
        (\<lambda>p. if p = PStr ''blob'' then PClass ''PublicAccess.File''
              else if p = PStr ''container'' then PClass ''PublicAccess.FileSystem''
              else PNone),
      undelete_path_options = (\<lambda>self n d. (n, url self @ ''/'' @ n, PStr (n @ ''?deletionid='' @ d))),
      path_undelete = (\<lambda>c src kw s. (Inl (HttpResponseError 404 ''PathNotFound''), s)),
      process_storage_error = (\<lambda>e. e),
      str_of_object = (\<lambda>v. ''<object>'')\<rparr>"

definition demo_client :: "demo_cc fs_client" where
  "demo_client =
     \<lparr>url = ''https://a.dfs/fs'', file_system_name = ''fs'', raw_credential = PStr ''key'',
      config = PObj 3, pipeline = demo_pipeline, hosts = PObj 4,
      require_encryption = PInt 0, key_encryption_key = PNone,
      key_resolver_function = PNone, blob_account_url = ''https://a.blob'',
      container_client = (''https://a.blob'', ''fs'', []),
      client = demo_rest ''https://a.dfs/fs'',
      datalake_client_for_blob_operation = demo_rest ''https://a.blob/fs'',
      loop = PNone\<rparr>"

text \<open>
  Modelled from the spec: the constructors of the child clients, which are not part of
  the sources at hand. They take the slashes off both ends of the file system name and
  of the path name, the root \<open>/\<close> apart, raise \<open>ValueError\<close> when either is then empty,
  and keep the path name so trimmed. A path name that is not a string has no \<open>strip\<close>.
\<close>

definition strip_slashes :: "string \<Rightarrow> string" where
  "strip_slashes p =
     rev (dropWhile (\<lambda>c. c = CHR ''/'') (rev (dropWhile (\<lambda>c. c = CHR ''/'') p)))"

definition no_strip_msg :: string where
  "no_strip_msg = ''object has no attribute '' @ CHR 0x27 # ''strip'' @ [CHR 0x27]"

definition specify_path_msg :: string where
  "specify_path_msg = ''Please specify a file system name and file path.''"

definition demo_path_init :: "child_args \<Rightarrow> error + child_args" where
  "demo_path_init a =
     (case child_path a of
        PStr p \<Rightarrow>
          (let path_name = (if p \<noteq> ''/'' then strip_slashes p else p)
           in if strip_slashes (child_file_system_name a) = [] \<or> path_name = []
              then Inl (ValueError specify_path_msg)
              else Inr (a\<lparr>child_file_system_name := strip_slashes (child_file_system_name a),
                          child_path := PStr path_name\<rparr>))
      | _ \<Rightarrow> Inl (AttributeError no_strip_msg))"

definition demo_child_classes :: "path_client child_classes" where
  "demo_child_classes =
     \<lparr>DataLakeFileClient_new =
        (\<lambda>a. case demo_path_init a of Inl e \<Rightarrow> Inl e | Inr b \<Rightarrow> Inr (DataLakeFileClient b)),
      DataLakeDirectoryClient_new =
        (\<lambda>a. case demo_path_init a of Inl e \<Rightarrow> Inl e
              | Inr b \<Rightarrow> Inr (DataLakeDirectoryClient b))\<rparr>"

text \<open>The same service, restoring every deleted path as a file.\<close>

definition demo_restoring_env :: "(demo_cc, string list) fs_env" where
  "demo_restoring_env = demo_env\<lparr>path_undelete := (\<lambda>c src kw s. (Inr True, s))\<rparr>"

definition demo_world :: "string list fs_world" where
  "demo_world = \<lparr>service = [''fs''], requests = []\<rparr>"

section \<open>ApplicationInsightsManagementClient\<close>

subsection \<open>Requests on the heap\<close>

text \<open>
  A request is an object held by reference, and so is the mutable mapping of its
  headers. The heap is the list of the objects; a reference is an index into it.
\<close>

type_synonym addr = nat

text \<open>
  The body of a request, content and files together: none, data that \<open>copy.deepcopy\<close>
  copies, or a stream (a generator, an open file), which \<open>copy.deepcopy\<close> refuses with
  \<open>TypeError\<close>. A stream is an object of its own, known here by its identity; what
  reading it does to it is outside this model.
\<close>

datatype body = NoBody | Bytes string | Stream nat

definition deep_copyable :: "body \<Rightarrow> bool" where
  "deep_copyable b = (case b of Stream i \<Rightarrow> False | _ \<Rightarrow> True)"

record http_request =
  req_method :: string
  req_url :: string
  req_headers :: addr
  req_content :: body

datatype heap_obj = Request http_request | Headers "(string \<times> string) list"

type_synonym heap = "heap_obj list"

text \<open>What a request holds, headers included, without references.\<close>

record request_value =
  v_method :: string
  v_url :: string
  v_headers :: "(string \<times> string) list"
  v_content :: body

text \<open>
  The pipeline client behind \<open>self._client\<close>, over a network state \<open>'n\<close> and with
  responses \<open>'p\<close>: \<open>send_request\<close> reads the request it is given and may change it.
\<close>

record ('n, 'p) arm_client =
  format_url :: "string \<Rightarrow> error + string"
  send_request :: "request_value \<Rightarrow> kwargs \<Rightarrow> 'n \<Rightarrow> (error + 'p) \<times> request_value \<times> 'n"

definition dangling_msg :: string where
  "dangling_msg = ''reference to no object''"

text \<open>
  \<open>copy.deepcopy\<close>. On a request it runs \<open>HttpRequest.__deepcopy__\<close>: a new request with
  the same method and URL, a new mapping of the same headers and a deep copy of the
  body; when the body cannot be deep-copied, the \<open>TypeError\<close> is caught and the result is
  \<open>copy.copy\<close> of the request, a new request object that refers to the same headers and
  the same body. References outside the heap do not occur in Python; the model answers
  them with an error.
\<close>

definition deepcopy :: "heap \<Rightarrow> addr \<Rightarrow> error + (addr \<times> heap)" where
  "deepcopy h a =
     (if length h \<le> a then Inl (ValueError dangling_msg)
      else case h ! a of
             Headers hs \<Rightarrow> Inr (length h, h @ [Headers hs])
           | Request r \<Rightarrow>
               (if length h \<le> req_headers r then Inl (ValueError dangling_msg)
                else if deep_copyable (req_content r)
                then Inr (Suc (length h),
                          h @ [h ! req_headers r, Request (r\<lparr>req_headers := length h\<rparr>)])
                else Inr (length h, h @ [Request r])))"

text \<open>
  \<open>self._client.send_request(request_copy, **kwargs)\<close>: the pipeline works on the
  object it is handed and on that object's headers.
\<close>

definition client_send_request ::
  "('n, 'p) arm_client \<Rightarrow> heap \<Rightarrow> addr \<Rightarrow> kwargs \<Rightarrow> 'n \<Rightarrow> (error + 'p) \<times> heap \<times> 'n" where
  "client_send_request C h a kw n =
     (case h ! a of
        Headers hs \<Rightarrow> (Inl (AttributeError ''url''), h, n)
      | Request r \<Rightarrow>
          (case h ! req_headers r of
             Request r' \<Rightarrow> (Inl (AttributeError ''items''), h, n)
           | Headers hs \<Rightarrow>
               (let (res, v, n') =
                      send_request C
                        \<lparr>v_method = req_method r, v_url = req_url r, v_headers = hs,
                         v_content = req_content r\<rparr> kw n
                in (res,
                    h[req_headers r := Headers (v_headers v),
                      a := Request \<lparr>req_method = v_method v, req_url = v_url v,
                                    req_headers = req_headers r,
                                    req_content = v_content v\<rparr>],
                    n'))))"

subsection \<open>The operation\<close>

definition send_request_op ::
  "('n, 'p) arm_client \<Rightarrow> heap \<Rightarrow> addr \<Rightarrow> kwargs \<Rightarrow> 'n \<Rightarrow> (error + 'p) \<times> heap \<times> 'n" where
  "send_request_op C h request kw n =
     (case deepcopy h request of
        Inl e \<Rightarrow> (Inl e, h, n)
      | Inr (request_copy, h1) \<Rightarrow>
          (case h1 ! request_copy of
             Headers hs \<Rightarrow> (Inl (AttributeError ''url''), h1, n)
           | Request r \<Rightarrow>
               (case format_url C (req_url r) of
                  Inl e \<Rightarrow> (Inl e, h1, n)
                | Inr u \<Rightarrow>
                    client_send_request C (h1[request_copy := Request (r\<lparr>req_url := u\<rparr>)])
                      request_copy kw n)))"

subsection \<open>A reference pipeline\<close>

text \<open>
  Modelled from the spec: the pipeline client, which is not part of the sources at
  hand; it prefixes relative URLs with the base URL and adds a header to the request it
  sends.
\<close>

definition demo_arm_client :: "(nat, nat) arm_client" where
  "demo_arm_client =
     \<lparr>format_url = (\<lambda>u. Inr (''https://management.azure.com'' @ u)),
      send_request =
        (\<lambda>v kw n. (Inr 200, v\<lparr>v_headers := (''Authorization'', ''Bearer'') # v_headers v\<rparr>,
                    Suc n))\<rparr>"

definition demo_heap :: heap where
  "demo_heap =
     [Headers [(''Accept'', ''application/json'')],
      Request \<lparr>req_method = ''GET'', req_url = ''/subscriptions'', req_headers = 0,
               req_content = NoBody\<rparr>]"

definition demo_stream_heap :: heap where
  "demo_stream_heap =
     [Headers [(''Accept'', ''application/json'')],
      Request \<lparr>req_method = ''POST'', req_url = ''/subscriptions'', req_headers = 0,
               req_content = Stream 5\<rparr>]"

section \<open>Properties of AvroEncoder\<close>

subsection \<open>Which client method resolves a schema\<close>

lemma call_registry_func_calls:
  "call_registry_func enc g n s fmt kw w = (res, w') \<Longrightarrow>
   calls w' = calls w @ [CallRegistry (auto_register_schema_func enc) g n s fmt kw]"
  by (auto simp: call_registry_func_def Let_def split: prod.splits)

lemma get_schema_id_calls:
  "get_schema_id enc n s kw w = (res, w') \<Longrightarrow>
   calls w' = calls w \<or>
   calls w' = calls w @
     [CallRegistry (auto_register_schema_func enc) (schema_group enc) n s ''Avro'' kw]"
  by (auto simp: get_schema_id_def Let_def
      split: if_splits option.splits prod.splits sum.splits
      dest!: call_registry_func_calls)

lemma encode_calls:
  "encode U enc content s mt ro kw w = (res, w') \<Longrightarrow>
   calls w' = calls w \<or>
   (\<exists>fn. validate_schema U (avro_encoder enc) s = Inr fn \<and>
     calls w' = calls w @
       [CallRegistry (auto_register_schema_func enc) (schema_group enc) fn s ''Avro''
          (or_empty ro)])"
  by (auto simp: encode_def Let_def
      split: if_splits option.splits prod.splits sum.splits
      dest!: get_schema_id_calls)


lemma init_func:
  "AvroEncoder_init self (Some cl) codec g ar = Inr enc \<Longrightarrow>
   auto_register_schema_func enc =
     (if ar = Some True then RegisterSchema else GetSchemaProperties) \<and>
   schema_group enc = g \<and> avro_encoder enc = codec \<and> ident enc = self \<and>
   schema_registry_client enc = cl"
  by (auto simp: AvroEncoder_init_def Let_def split: option.splits)

lemma call_registry_func_ignores_flag:
  "call_registry_func (enc\<lparr>auto_register := b\<rparr>) = call_registry_func enc"
  by (intro ext) (simp add: call_registry_func_def)

lemma get_schema_id_ignores_flag:
  "get_schema_id (enc\<lparr>auto_register := b\<rparr>) = get_schema_id enc"
  by (intro ext)
    (simp add: get_schema_id_def call_registry_func_ignores_flag Let_def
      cong: option.case_cong)

lemma encode_ignores_flag:
  "encode U (enc\<lparr>auto_register := b\<rparr>) = encode U enc"
  by (intro ext)
    (simp add: encode_def get_schema_id_ignores_flag Let_def
      cong: sum.case_cong option.case_cong prod.case_cong)

lemma get_schema_id_clash:
  assumes "list_all (\<lambda>kv. hashable (snd kv)) kw"
    and "lru_find (schema_id_cache w) (ident enc, n, s, kw) = None"
    and "repeated_keyword [''self'', ''schema_name'', ''schema_str''] kw = Some k"
  shows "get_schema_id enc n s kw w =
     (Inl (TypeError (multiple_argument_msg k)),
      w\<lparr>schema_id_cache := lru_miss (schema_id_cache w)\<rparr>)"
  using assms by (simp add: get_schema_id_def Let_def)

lemma get_schema_id_miss:
  assumes "list_all (\<lambda>kv. hashable (snd kv)) kw"
    and "lru_find (schema_id_cache w) (ident enc, n, s, kw) = None"
    and "repeated_keyword [''self'', ''schema_name'', ''schema_str''] kw = None"
  shows "get_schema_id enc n s kw w =
     (case call_registry_func enc (schema_group enc) n s ''Avro'' kw
             (w\<lparr>schema_id_cache := lru_miss (schema_id_cache w)\<rparr>) of
        (Inl e, w2) \<Rightarrow> (Inl e, w2)
      | (Inr props, w2) \<Rightarrow>
          (Inr (props_id props),
           w2\<lparr>schema_id_cache :=
                lru_store (schema_id_cache w2) (ident enc, n, s, kw) (props_id props)\<rparr>))"
  using assms by (simp add: get_schema_id_def Let_def split: prod.splits sum.splits)

lemma encode_unregistered_fails:
  assumes "auto_register_schema_func enc = GetSchemaProperties"
    and "\<not> no_group (schema_group enc)"
    and "validate_schema U (avro_encoder enc) s = Inr fn"
    and "list_all (\<lambda>kv. hashable (snd kv)) (or_empty ro)"
    and "lru_find (schema_id_cache w) (ident enc, fn, s, or_empty ro) = None"
    and "repeated_keyword [''self'', ''schema_name'', ''schema_str''] (or_empty ro) = None"
    and "get_schema_properties (schema_registry_client enc) (schema_group enc) fn s ''Avro''
           (or_empty ro) (registry w) = (Inl e, r')"
  shows "fst (encode U enc content s mt ro kw w) = Inl e \<and>
         registry (snd (encode U enc content s mt ro kw w)) = r'"
  using assms
  by (simp add: encode_def get_schema_id_miss call_registry_func_def Let_def)

lemma encode_auto_registers:
  assumes "auto_register_schema_func enc = RegisterSchema"
    and "\<not> no_group (schema_group enc)"
    and "validate_schema U (avro_encoder enc) s = Inr fn"
    and "list_all (\<lambda>kv. hashable (snd kv)) (or_empty ro)"
    and "lru_find (schema_id_cache w) (ident enc, fn, s, or_empty ro) = None"
    and "repeated_keyword [''self'', ''schema_name'', ''schema_str''] (or_empty ro) = None"
    and "repeated_keyword [''content'', ''raw_input_schema'', ''schema_id'', ''message_type''] kw
           = None"
    and "register_schema (schema_registry_client enc) (schema_group enc) fn s ''Avro''
           (or_empty ro) (registry w) = (Inr p, r')"
  shows "fst (encode U enc content s mt ro kw w) =
           create_message_content U (avro_encoder enc) content s (props_id p) mt kw \<and>
         registry (snd (encode U enc content s mt ro kw w)) = r'"
  using assms
  by (simp add: encode_def get_schema_id_miss call_registry_func_def Let_def)


lemma encode_clash:
  assumes "\<not> no_group (schema_group enc)"
    and "validate_schema U (avro_encoder enc) s = Inr fn"
    and "list_all (\<lambda>kv. hashable (snd kv)) (or_empty ro)"
    and "lru_find (schema_id_cache w) (ident enc, fn, s, or_empty ro) = None"
    and "repeated_keyword [''self'', ''schema_name'', ''schema_str''] (or_empty ro) = Some k"
  shows "fst (encode U enc content s mt ro kw w) = Inl (TypeError (multiple_argument_msg k)) \<and>
         calls (snd (encode U enc content s mt ro kw w)) = calls w \<and>
         registry (snd (encode U enc content s mt ro kw w)) = registry w"
  using assms
  by (simp add: encode_def get_schema_id_clash Let_def)

text \<open>
  Claim C7. The client method that resolves schema ids is chosen by \<open>__init__\<close> from
  \<open>auto_register\<close> and never changes afterwards: an encoder built with
  \<open>auto_register\<close> absent or false holds \<open>get_schema_properties\<close>, one built with
  \<open>auto_register\<close> true holds \<open>register_schema\<close>; overwriting the flag later does not
  change \<open>_get_schema_id\<close>; every call of \<open>_get_schema_id\<close> and of \<open>encode\<close> invokes
  the client either not at all or exactly once, through the method held, with the group,
  the schema name, the schema string and the format \<open>Avro\<close>. For request options and
  keywords that repeat no parameter of the calls they are passed to: without
  \<open>auto_register\<close>, when the registry answers the lookup of an uncached schema with an
  error, \<open>encode\<close> fails with that error; with \<open>auto_register\<close>, the registration that
  \<open>register_schema\<close> performs is the registry state after \<open>encode\<close>, and the id it
  returns is the one the message is built with. A request option named \<open>self\<close>,
  \<open>schema_name\<close> or \<open>schema_str\<close> makes the lookup of an uncached schema raise
  TypeError with no call of the client, whatever \<open>auto_register\<close> is.
\<close>

theorem auto_register_fixes_schema_lookup:
  assumes init: "AvroEncoder_init self (Some cl) codec g ar = Inr (enc :: 'r encoder)"
  defines "f \<equiv> (if ar = Some True then RegisterSchema else GetSchemaProperties)"
  shows
    "auto_register_schema_func enc = f \<and>
     (\<forall>b. get_schema_id (enc\<lparr>auto_register := b\<rparr>) = get_schema_id enc) \<and>
     (\<forall>n s kw w res w'. get_schema_id enc n s kw w = (res, w') \<longrightarrow>
        calls w' = calls w \<or> calls w' = calls w @ [CallRegistry f g n s ''Avro'' kw]) \<and>
     (\<forall>(U :: 'm utils) content s mt ro kw w res w'. encode U enc content s mt ro kw w = (res, w') \<longrightarrow>
        calls w' = calls w \<or>
        (\<exists>fn. validate_schema U codec s = Inr fn \<and>
           calls w' = calls w @ [CallRegistry f g fn s ''Avro'' (or_empty ro)])) \<and>
     (\<forall>(U :: 'm utils) content s mt ro kw w fn e r'.
        ar \<noteq> Some True \<longrightarrow> \<not> no_group g \<longrightarrow> validate_schema U codec s = Inr fn \<longrightarrow>
        list_all (\<lambda>kv. hashable (snd kv)) (or_empty ro) \<longrightarrow>
        lru_find (schema_id_cache w) (self, fn, s, or_empty ro) = None \<longrightarrow>
        repeated_keyword [''self'', ''schema_name'', ''schema_str''] (or_empty ro) = None \<longrightarrow>
        get_schema_properties cl g fn s ''Avro'' (or_empty ro) (registry w) = (Inl e, r') \<longrightarrow>
        fst (encode U enc content s mt ro kw w) = Inl e \<and>
        registry (snd (encode U enc content s mt ro kw w)) = r') \<and>
     (\<forall>(U :: 'm utils) content s mt ro kw w fn p r'.
        ar = Some True \<longrightarrow> \<not> no_group g \<longrightarrow> validate_schema U codec s = Inr fn \<longrightarrow>
        list_all (\<lambda>kv. hashable (snd kv)) (or_empty ro) \<longrightarrow>
        lru_find (schema_id_cache w) (self, fn, s, or_empty ro) = None \<longrightarrow>
        repeated_keyword [''self'', ''schema_name'', ''schema_str''] (or_empty ro) = None \<longrightarrow>
        repeated_keyword [''content'', ''raw_input_schema'', ''schema_id'', ''message_type''] kw
          = None \<longrightarrow>
        register_schema cl g fn s ''Avro'' (or_empty ro) (registry w) = (Inr p, r') \<longrightarrow>
        fst (encode U enc content s mt ro kw w) =
          create_message_content U codec content s (props_id p) mt kw \<and>
        registry (snd (encode U enc content s mt ro kw w)) = r') \<and>
     (\<forall>(U :: 'm utils) content s mt ro kw w fn k.
        \<not> no_group g \<longrightarrow> validate_schema U codec s = Inr fn \<longrightarrow>
        list_all (\<lambda>kv. hashable (snd kv)) (or_empty ro) \<longrightarrow>
        lru_find (schema_id_cache w) (self, fn, s, or_empty ro) = None \<longrightarrow>
        repeated_keyword [''self'', ''schema_name'', ''schema_str''] (or_empty ro) = Some k \<longrightarrow>
        fst (encode U enc content s mt ro kw w) = Inl (TypeError (multiple_argument_msg k)) \<and>
        calls (snd (encode U enc content s mt ro kw w)) = calls w \<and>
        registry (snd (encode U enc content s mt ro kw w)) = registry w)"
proof -
  from init_func [OF init]
  have F: "auto_register_schema_func enc = f" and G: "schema_group enc = g"
    and C: "avro_encoder enc = codec" and I: "ident enc = self"
    and L: "schema_registry_client enc = cl"
    by (simp_all add: f_def)
  have c2: "\<forall>b. get_schema_id (enc\<lparr>auto_register := b\<rparr>) = get_schema_id enc"
    by (simp add: get_schema_id_ignores_flag)
  have c3: "\<forall>n s kw w res w'. get_schema_id enc n s kw w = (res, w') \<longrightarrow>
        calls w' = calls w \<or> calls w' = calls w @ [CallRegistry f g n s ''Avro'' kw]"
    using get_schema_id_calls [of enc] by (simp add: F G)
  have c4: "\<forall>(U :: 'm utils) content s mt ro kw w res w'. encode U enc content s mt ro kw w = (res, w') \<longrightarrow>
        calls w' = calls w \<or>
        (\<exists>fn. validate_schema U codec s = Inr fn \<and>
           calls w' = calls w @ [CallRegistry f g fn s ''Avro'' (or_empty ro)])"
  proof (intro allI impI)
    fix U :: "'m utils" and w :: "'r world" and content s mt ro kw res w'
    assume "encode U enc content s mt ro kw w = (res, w')"
    from encode_calls [OF this]
    show "calls w' = calls w \<or>
        (\<exists>fn. validate_schema U codec s = Inr fn \<and>
           calls w' = calls w @ [CallRegistry f g fn s ''Avro'' (or_empty ro)])"
      by (simp add: F G C)
  qed
  have c5: "\<forall>(U :: 'm utils) content s mt ro kw w fn e r'.
        ar \<noteq> Some True \<longrightarrow> \<not> no_group g \<longrightarrow> validate_schema U codec s = Inr fn \<longrightarrow>
        list_all (\<lambda>kv. hashable (snd kv)) (or_empty ro) \<longrightarrow>
        lru_find (schema_id_cache w) (self, fn, s, or_empty ro) = None \<longrightarrow>
        repeated_keyword [''self'', ''schema_name'', ''schema_str''] (or_empty ro) = None \<longrightarrow>
        get_schema_properties cl g fn s ''Avro'' (or_empty ro) (registry w) = (Inl e, r') \<longrightarrow>
        fst (encode U enc content s mt ro kw w) = Inl e \<and>
        registry (snd (encode U enc content s mt ro kw w)) = r'"
  proof (intro allI impI)
    fix U :: "'m utils" and w :: "'r world" and content s mt ro kw fn e r'
    assume "ar \<noteq> Some True" and "\<not> no_group g" and "validate_schema U codec s = Inr fn"
      and "list_all (\<lambda>kv. hashable (snd kv)) (or_empty ro)"
      and "lru_find (schema_id_cache w) (self, fn, s, or_empty ro) = None"
      and "repeated_keyword [''self'', ''schema_name'', ''schema_str''] (or_empty ro) = None"
      and "get_schema_properties cl g fn s ''Avro'' (or_empty ro) (registry w) = (Inl e, r')"
    then show "fst (encode U enc content s mt ro kw w) = Inl e \<and>
        registry (snd (encode U enc content s mt ro kw w)) = r'"
      using encode_unregistered_fails
        [where enc = enc and U = U and s = s and fn = fn and ro = ro and w = w and e = e
           and r' = r' and content = content and mt = mt and kw = kw]
      by (simp add: F G C I L f_def)
  qed
  have c6: "\<forall>(U :: 'm utils) content s mt ro kw w fn p r'.
        ar = Some True \<longrightarrow> \<not> no_group g \<longrightarrow> validate_schema U codec s = Inr fn \<longrightarrow>
        list_all (\<lambda>kv. hashable (snd kv)) (or_empty ro) \<longrightarrow>
        lru_find (schema_id_cache w) (self, fn, s, or_empty ro) = None \<longrightarrow>
        repeated_keyword [''self'', ''schema_name'', ''schema_str''] (or_empty ro) = None \<longrightarrow>
        repeated_keyword [''content'', ''raw_input_schema'', ''schema_id'', ''message_type''] kw
          = None \<longrightarrow>
        register_schema cl g fn s ''Avro'' (or_empty ro) (registry w) = (Inr p, r') \<longrightarrow>
        fst (encode U enc content s mt ro kw w) =
          create_message_content U codec content s (props_id p) mt kw \<and>
        registry (snd (encode U enc content s mt ro kw w)) = r'"
  proof (intro allI impI)
    fix U :: "'m utils" and w :: "'r world" and content s mt ro kw fn p r'
    assume "ar = Some True" and "\<not> no_group g" and "validate_schema U codec s = Inr fn"
      and "list_all (\<lambda>kv. hashable (snd kv)) (or_empty ro)"
      and "lru_find (schema_id_cache w) (self, fn, s, or_empty ro) = None"
      and "repeated_keyword [''self'', ''schema_name'', ''schema_str''] (or_empty ro) = None"
      and "repeated_keyword [''content'', ''raw_input_schema'', ''schema_id'', ''message_type''] kw
          = None"
      and "register_schema cl g fn s ''Avro'' (or_empty ro) (registry w) = (Inr p, r')"
    then show "fst (encode U enc content s mt ro kw w) =
          create_message_content U codec content s (props_id p) mt kw \<and>
        registry (snd (encode U enc content s mt ro kw w)) = r'"
      using encode_auto_registers
        [where enc = enc and U = U and s = s and fn = fn and ro = ro and w = w and p = p
           and r' = r' and content = content and mt = mt and kw = kw]
      by (simp add: F G C I L f_def)
  qed
  have c7: "\<forall>(U :: 'm utils) content s mt ro kw w fn k.
        \<not> no_group g \<longrightarrow> validate_schema U codec s = Inr fn \<longrightarrow>
        list_all (\<lambda>kv. hashable (snd kv)) (or_empty ro) \<longrightarrow>
        lru_find (schema_id_cache w) (self, fn, s, or_empty ro) = None \<longrightarrow>
        repeated_keyword [''self'', ''schema_name'', ''schema_str''] (or_empty ro) = Some k \<longrightarrow>
        fst (encode U enc content s mt ro kw w) = Inl (TypeError (multiple_argument_msg k)) \<and>
        calls (snd (encode U enc content s mt ro kw w)) = calls w \<and>
        registry (snd (encode U enc content s mt ro kw w)) = registry w"
  proof (intro allI impI)
    fix U :: "'m utils" and w :: "'r world" and content s mt ro kw fn k
    assume "\<not> no_group g" and "validate_schema U codec s = Inr fn"
      and "list_all (\<lambda>kv. hashable (snd kv)) (or_empty ro)"
      and "lru_find (schema_id_cache w) (self, fn, s, or_empty ro) = None"
      and "repeated_keyword [''self'', ''schema_name'', ''schema_str''] (or_empty ro) = Some k"
    then show "fst (encode U enc content s mt ro kw w) =
          Inl (TypeError (multiple_argument_msg k)) \<and>
        calls (snd (encode U enc content s mt ro kw w)) = calls w \<and>
        registry (snd (encode U enc content s mt ro kw w)) = registry w"
      using encode_clash
        [where enc = enc and U = U and s = s and fn = fn and ro = ro and w = w and k = k
           and content = content and mt = mt and kw = kw]
      by (simp add: G C I)
  qed
  from F c2 c3 c4 c5 c6 c7 show ?thesis by blast
qed


theorem auto_register_fixes_schema_lookup_witness:
  "AvroEncoder_init 1 (Some ref_client) None (Some ''g'') None = Inr (demo_encoder False) \<and>
   fst (encode ref_utils (demo_encoder False) (PDict []) ''rec'' None None []
          (init_world [])) = Inl not_found \<and>
   AvroEncoder_init 1 (Some ref_client) None (Some ''g'') (Some True) =
     Inr (demo_encoder True) \<and>
   registry (snd (encode ref_utils (demo_encoder True) (PDict []) ''rec'' None None []
                    (init_world []))) =
     [((''g'', ''ns.rec'', ''rec'', ''Avro''), ''id-'')] \<and>
   fst (encode ref_utils (demo_encoder True) (PDict []) ''rec'' None
          (Some [(''schema_name'', PStr ''x'')]) [] (init_world [])) =
     Inl (TypeError (multiple_argument_msg ''schema_name'')) \<and>
   calls (snd (encode ref_utils (demo_encoder True) (PDict []) ''rec'' None
                 (Some [(''schema_name'', PStr ''x'')]) [] (init_world ([] :: ref_registry)))) = []"
proof -
  have i0: "AvroEncoder_init 1 (Some ref_client) None (Some ''g'') None =
      Inr (demo_encoder False)"
    by (simp add: AvroEncoder_init_def demo_encoder_def)
  have i1: "AvroEncoder_init 1 (Some ref_client) None (Some ''g'') (Some True) =
      Inr (demo_encoder True)"
    by (simp add: AvroEncoder_init_def demo_encoder_def)
  have g: "\<not> no_group (Some ''g'')"
    by (simp add: no_group_def)
  have v: "validate_schema ref_utils None ''rec'' = Inr ''ns.rec''"
    by (simp add: ref_utils_def)
  have h: "list_all (\<lambda>kv. hashable (snd kv)) (or_empty None)"
    by (simp add: or_empty_def)
  have m: "lru_find (schema_id_cache (init_world ([] :: ref_registry)))
      (1, ''ns.rec'', ''rec'', or_empty None) = None"
    by (simp add: lru_find_def init_world_def lru_empty_def)
  have q0: "get_schema_properties ref_client (Some ''g'') ''ns.rec'' ''rec'' ''Avro''
      (or_empty None) (registry (init_world [])) = (Inl not_found, [])"
    by (simp add: ref_client_def ref_get_schema_properties_def init_world_def)
  have q1: "register_schema ref_client (Some ''g'') ''ns.rec'' ''rec'' ''Avro''
      (or_empty None) (registry (init_world [])) =
      (Inr \<lparr>props_id = ''id-'', props_format = ''Avro''\<rparr>,
       [((''g'', ''ns.rec'', ''rec'', ''Avro''), ''id-'')])"
    by (simp add: ref_client_def ref_register_schema_def init_world_def fresh_id_def)
  have n0: "(None :: bool option) \<noteq> Some True"
    by simp
  have r0: "repeated_keyword [''self'', ''schema_name'', ''schema_str''] (or_empty None) = None"
    "repeated_keyword [''content'', ''raw_input_schema'', ''schema_id'', ''message_type''] []
       = None"
    by (simp_all add: repeated_keyword_def or_empty_def)
  note unregistered = auto_register_fixes_schema_lookup [OF i0, THEN conjunct2,
      THEN conjunct2, THEN conjunct2, THEN conjunct2, THEN conjunct1, rule_format]
  from unregistered [OF n0 g v h m r0(1) q0]
  have a: "fst (encode ref_utils (demo_encoder False) (PDict []) ''rec'' None None []
          (init_world [])) = Inl not_found"
    by simp
  note registers = auto_register_fixes_schema_lookup [OF i1, THEN conjunct2,
      THEN conjunct2, THEN conjunct2, THEN conjunct2, THEN conjunct2, THEN conjunct1,
      rule_format]
  from registers [OF refl g v h m r0 q1]
  have b: "registry (snd (encode ref_utils (demo_encoder True) (PDict []) ''rec'' None None []
                    (init_world []))) =
     [((''g'', ''ns.rec'', ''rec'', ''Avro''), ''id-'')]"
    by simp
  let ?ro = "Some [(''schema_name'', PStr ''x'')]"
  have h': "list_all (\<lambda>kv. hashable (snd kv)) (or_empty ?ro)"
    by (simp add: or_empty_def)
  have m': "lru_find (schema_id_cache (init_world ([] :: ref_registry)))
      (1, ''ns.rec'', ''rec'', or_empty ?ro) = None"
    by (simp add: lru_find_def init_world_def lru_empty_def)
  have r': "repeated_keyword [''self'', ''schema_name'', ''schema_str''] (or_empty ?ro) =
      Some ''schema_name''"
    by (simp add: repeated_keyword_def or_empty_def)
  note clash = auto_register_fixes_schema_lookup [OF i1, THEN conjunct2,
      THEN conjunct2, THEN conjunct2, THEN conjunct2, THEN conjunct2, THEN conjunct2,
      rule_format]
  from clash [OF g v h' m' r', of "PDict []" None "[]"]
  have c: "fst (encode ref_utils (demo_encoder True) (PDict []) ''rec'' None ?ro []
          (init_world [])) = Inl (TypeError (multiple_argument_msg ''schema_name'')) \<and>
      calls (snd (encode ref_utils (demo_encoder True) (PDict []) ''rec'' None ?ro []
          (init_world ([] :: ref_registry)))) = []"
    by (simp add: init_world_def)
  from i0 a i1 b c show ?thesis by simp
qed

subsection \<open>The function caches\<close>









lemma map_of_filter_other:
  "k \<noteq> k' \<Longrightarrow> map_of (filter (\<lambda>e. fst e \<noteq> k') es) k = map_of es k"
  by (induction es) auto





























section \<open>Properties of the FileSystemClient\<close>

subsection \<open>Construction\<close>

lemma dict_get_set: "dict_get (dict_set d k v) k = Some v"
  by (induction d) (auto simp: dict_get_def)

lemma dict_get_pop_other: "k \<noteq> k' \<Longrightarrow> dict_get (snd (dict_pop d k')) k = dict_get d k"
  by (induction d) (auto simp: dict_get_def dict_pop_def)

lemma retry_policy_absent:
  "dict_get kw ''retry_policy'' = None \<Longrightarrow> retry_policy_or_default kw = PExponentialRetry kw"
  by (simp add: retry_policy_or_default_def)

lemma retry_policy_given:
  "dict_get kw ''retry_policy'' = Some p \<Longrightarrow> truthy p \<Longrightarrow> retry_policy_or_default kw = p"
  by (simp add: retry_policy_or_default_def)

lemma retry_policy_falsy:
  "dict_get kw ''retry_policy'' = Some p \<Longrightarrow> \<not> truthy p \<Longrightarrow>
   retry_policy_or_default kw = PExponentialRetry kw"
  by (simp add: retry_policy_or_default_def)

lemma init_steps:
  assumes "FileSystemClient_init E a f c kw = Inr self"
  defines "kw1 \<equiv> dict_set kw ''retry_policy'' (retry_policy_or_default kw)"
  defines "kw2 \<equiv> snd (dict_pop kw1 ''_hosts'')"
  shows "\<exists>self0 v.
     base_init E a f c kw1 = Inr self0 \<and>
     ContainerClient_new E (blob_account_url self0) (file_system_name self0) c
       (container_hosts E (container_client self0)) kw2 = Inr (container_client self) \<and>
     get_api_version E kw2 = Inr v \<and>
     config_version (client self) = v \<and>
     config_version (datalake_client_for_blob_operation self) = v"
  using assms(1) unfolding kw1_def kw2_def
  by (auto simp: FileSystemClient_init_def Let_def split: sum.splits)

text \<open>
  Claim C3, as stated, fails: a \<open>retry_policy\<close> the caller supplies is not always used
  unchanged. Supplied as \<open>False\<close> (or \<open>0\<close>, \<open>None\<close>, an empty value), it is replaced by the
  \<open>ExponentialRetry\<close> of the caller's keywords, here in the keywords the ContainerClient
  is built with.
\<close>

theorem falsy_retry_policy_counterexample:
  "retry_policy_or_default [(''retry_policy'', PNone)] =
     PExponentialRetry [(''retry_policy'', PNone)] \<and>
   \<not> isl (FileSystemClient_init demo_env ''https://a.dfs'' ''fs'' (PStr ''key'')
            [(''retry_policy'', PInt 0)]) \<and>
   dict_get (snd (snd (container_client
       (projr (FileSystemClient_init demo_env ''https://a.dfs'' ''fs'' (PStr ''key'')
                 [(''retry_policy'', PInt 0)]))))) ''retry_policy'' =
     Some (PExponentialRetry [(''retry_policy'', PInt 0)]) \<and>
   PExponentialRetry [(''retry_policy'', PInt 0)] \<noteq> PInt 0"
  by (simp add: retry_policy_or_default_def FileSystemClient_init_def demo_env_def
      demo_base_init_def demo_get_api_version_def dict_get_def dict_pop_def Let_def)

text \<open>
  Claim C3, amended. Whenever the constructor of the asynchronous FileSystemClient
  returns, the base class and the ContainerClient were both built with a
  \<open>retry_policy\<close> keyword: the caller's own value when the caller gave one that is true
  in Python's sense, as every ordinary policy object is; the \<open>ExponentialRetry\<close> of the
  caller's keywords when the caller gave none or gave a false value (\<open>None\<close>, \<open>False\<close>,
  \<open>0\<close>, an empty value). The version that \<open>get_api_version\<close> resolves from the keywords
  is the \<open>_config.version\<close> of both generated clients, \<open>_client\<close> and
  \<open>_datalake_client_for_blob_operation\<close>.
\<close>

theorem init_installs_retry_policy_and_version:
  assumes "FileSystemClient_init E a f c kw = Inr self"
  defines "rp \<equiv> retry_policy_or_default kw"
  defines "kw1 \<equiv> dict_set kw ''retry_policy'' rp"
  defines "kw2 \<equiv> snd (dict_pop kw1 ''_hosts'')"
  shows "(dict_get kw ''retry_policy'' = None \<longrightarrow> rp = PExponentialRetry kw) \<and>
     (\<forall>p. dict_get kw ''retry_policy'' = Some p \<longrightarrow> truthy p \<longrightarrow> rp = p) \<and>
     (\<forall>p. dict_get kw ''retry_policy'' = Some p \<longrightarrow> \<not> truthy p \<longrightarrow>
        rp = PExponentialRetry kw) \<and>
     dict_get kw1 ''retry_policy'' = Some rp \<and>
     dict_get kw2 ''retry_policy'' = Some rp \<and>
     (\<exists>self0 v.
        base_init E a f c kw1 = Inr self0 \<and>
        ContainerClient_new E (blob_account_url self0) (file_system_name self0) c
          (container_hosts E (container_client self0)) kw2 = Inr (container_client self) \<and>
        get_api_version E kw2 = Inr v \<and>
        config_version (client self) = v \<and>
        config_version (datalake_client_for_blob_operation self) = v)"
proof -
  have a: "dict_get kw ''retry_policy'' = None \<longrightarrow> rp = PExponentialRetry kw"
    by (simp add: rp_def retry_policy_absent)
  have b: "\<forall>p. dict_get kw ''retry_policy'' = Some p \<longrightarrow> truthy p \<longrightarrow> rp = p"
    by (simp add: rp_def retry_policy_given)
  have b': "\<forall>p. dict_get kw ''retry_policy'' = Some p \<longrightarrow> \<not> truthy p \<longrightarrow>
      rp = PExponentialRetry kw"
    by (simp add: rp_def retry_policy_falsy)
  have c: "dict_get kw1 ''retry_policy'' = Some rp"
    by (simp add: kw1_def dict_get_set)
  have d: "dict_get kw2 ''retry_policy'' = Some rp"
    by (simp add: kw2_def dict_get_pop_other c)
  from init_steps [OF assms(1)] a b b' c d show ?thesis
    by (simp add: kw1_def kw2_def rp_def)
qed

theorem init_installs_retry_policy_and_version_witness:
  "(\<exists>self. FileSystemClient_init demo_env ''https://a.dfs'' ''fs'' (PStr ''key'')
             [(''api_version'', PStr ''2019-02-02'')] = Inr self \<and>
           config_version (client self) = ''2019-02-02'' \<and>
           config_version (datalake_client_for_blob_operation self) = ''2019-02-02'' \<and>
           dict_get (snd (snd (container_client self))) ''retry_policy'' =
             Some (PExponentialRetry [(''api_version'', PStr ''2019-02-02'')])) \<and>
   (\<exists>self. FileSystemClient_init demo_env ''https://a.dfs'' ''fs'' (PStr ''key'')
             [(''retry_policy'', PObj 9)] = Inr self \<and>
           dict_get (snd (snd (container_client self))) ''retry_policy'' = Some (PObj 9)) \<and>
   (\<exists>self. FileSystemClient_init demo_env ''https://a.dfs'' ''fs'' (PStr ''key'')
             [(''retry_policy'', PNone)] = Inr self \<and>
           dict_get (snd (snd (container_client self))) ''retry_policy'' =
             Some (PExponentialRetry [(''retry_policy'', PNone)]))"
proof -
  let ?kwc = "[(''retry_policy'', PNone)]"
  obtain sc where ic: "FileSystemClient_init demo_env ''https://a.dfs'' ''fs'' (PStr ''key'') ?kwc
      = Inr sc"
    by (simp add: FileSystemClient_init_def demo_env_def demo_base_init_def
        demo_get_api_version_def dict_get_def dict_pop_def Let_def)
  have nc: "dict_get ?kwc ''retry_policy'' = Some PNone" "\<not> truthy PNone"
    by (simp_all add: dict_get_def)
  from init_installs_retry_policy_and_version [OF ic] nc
  have rc: "retry_policy_or_default ?kwc = PExponentialRetry ?kwc"
    by blast
  from init_installs_retry_policy_and_version [OF ic] rc
  have c: "dict_get (snd (snd (container_client sc))) ''retry_policy'' =
      Some (PExponentialRetry ?kwc)"
    by (auto simp: demo_env_def dict_get_def dict_pop_def
        eq_commute [of _ "container_client sc"])
  let ?kwa = "[(''api_version'', PStr ''2019-02-02'')]"
  let ?kwb = "[(''retry_policy'', PObj 9)]"
  obtain sa where ia: "FileSystemClient_init demo_env ''https://a.dfs'' ''fs'' (PStr ''key'') ?kwa
      = Inr sa"
    by (simp add: FileSystemClient_init_def demo_env_def demo_base_init_def
        demo_get_api_version_def dict_get_def dict_pop_def Let_def)
  obtain sb where ib: "FileSystemClient_init demo_env ''https://a.dfs'' ''fs'' (PStr ''key'') ?kwb
      = Inr sb"
    by (simp add: FileSystemClient_init_def demo_env_def demo_base_init_def
        demo_get_api_version_def dict_get_def dict_pop_def Let_def)
  have na: "dict_get ?kwa ''retry_policy'' = None"
    by (simp add: dict_get_def)
  have nb: "dict_get ?kwb ''retry_policy'' = Some (PObj 9)" "truthy (PObj 9)"
    by (simp_all add: dict_get_def)
  from init_installs_retry_policy_and_version [OF ia] na
  have ra: "retry_policy_or_default ?kwa = PExponentialRetry ?kwa"
    by blast
  from init_installs_retry_policy_and_version [OF ib] nb
  have rb: "retry_policy_or_default ?kwb = PObj 9"
    by blast
  from init_installs_retry_policy_and_version [OF ia] ra
  have a: "config_version (client sa) = ''2019-02-02'' \<and>
      config_version (datalake_client_for_blob_operation sa) = ''2019-02-02'' \<and>
      dict_get (snd (snd (container_client sa))) ''retry_policy'' = Some (PExponentialRetry ?kwa)"
    by (auto simp: demo_env_def demo_get_api_version_def dict_get_def dict_pop_def
        eq_commute [of _ "container_client sa"])
  from init_installs_retry_policy_and_version [OF ib] rb
  have b: "dict_get (snd (snd (container_client sb))) ''retry_policy'' = Some (PObj 9)"
    by (auto simp: demo_env_def dict_get_def dict_pop_def
        eq_commute [of _ "container_client sb"])
  from ia ib ic a b c show ?thesis by blast
qed

subsection \<open>Child clients\<close>

lemma child_arguments_child_of: "child_of E self x (child_arguments E self (name_of E x))"
  by (auto simp: child_of_def child_arguments_def name_of_def py_str_def split: pyval.splits)

text \<open>
  Claim C10, as stated, fails: not every plain string and not every properties object
  gets a child client. For the empty string, and for a string of slashes only, the
  constructor of the child client raises \<open>ValueError\<close>, and for a mapping without a
  \<open>name\<close> it raises \<open>AttributeError\<close>; \<open>get_file_client\<close> and \<open>get_directory_client\<close> pass
  the error on and return no client.
\<close>

theorem child_client_rejected_counterexample:
  "get_file_client demo_child_classes demo_env demo_client (PStr []) demo_world =
     (Inl (ValueError specify_path_msg), demo_world) \<and>
   get_directory_client demo_child_classes demo_env demo_client (PStr ''//'') demo_world =
     (Inl (ValueError specify_path_msg), demo_world) \<and>
   get_file_client demo_child_classes demo_env demo_client (PDict []) demo_world =
     (Inl (AttributeError no_strip_msg), demo_world)"
  by (simp add: get_file_client_def get_directory_client_def demo_child_classes_def
      demo_path_init_def child_arguments_def name_of_def py_str_def strip_slashes_def
      demo_client_def Let_def)

text \<open>
  Claim C10, amended. For every input, \<open>get_file_client\<close> and \<open>get_directory_client\<close>
  leave the service and the record of requests as they were, and their outcome is the
  outcome of the child client's constructor, a client or the constructor's error, on
  these arguments: as target name the input's \<open>get('name')\<close> when the input is a mapping
  or a properties object, \<open>str\<close> of the input otherwise (a string is its own name); the
  parent's URL, file system name, credential and API version; the parent's policies, and
  the parent's transport inside an \<open>AsyncTransportWrapper\<close>.
\<close>

theorem child_clients_built_from_parent:
  "(\<exists>args. child_of E self x args \<and>
           get_file_client K E self x w = (DataLakeFileClient_new K args, w)) \<and>
   (\<exists>args. child_of E self x args \<and>
           get_directory_client K E self x w = (DataLakeDirectoryClient_new K args, w))"
proof -
  let ?args = "child_arguments E self (name_of E x)"
  have c: "child_of E self x ?args"
    by (rule child_arguments_child_of)
  have f: "get_file_client K E self x w = (DataLakeFileClient_new K ?args, w)"
    by (simp add: get_file_client_def)
  have d: "get_directory_client K E self x w = (DataLakeDirectoryClient_new K ?args, w)"
    by (simp add: get_directory_client_def)
  from c f d show ?thesis by blast
qed

theorem child_clients_built_from_parent_witness:
  "(\<exists>c. get_file_client demo_child_classes demo_env demo_client
            (PDict [(''name'', PStr ''a/b'')]) demo_world = (Inr (DataLakeFileClient c), demo_world) \<and>
        child_path c = PStr ''a/b'' \<and> child_account_url c = ''https://a.dfs/fs'' \<and>
        transport (child_pipeline c) = AsyncTransportWrapper (Transport 7)) \<and>
   (\<exists>c. get_directory_client demo_child_classes demo_env demo_client (PStr ''dir'')
            demo_world = (Inr (DataLakeDirectoryClient c), demo_world) \<and>
        child_path c = PStr ''dir'' \<and> child_file_system_name c = ''fs'' \<and>
        child_credential c = PStr ''key'')"
proof -
  let ?x = "PDict [(''name'', PStr ''a/b'')]"
  from child_clients_built_from_parent
    [where K = demo_child_classes and E = demo_env and self = demo_client and x = ?x
       and w = demo_world]
  obtain a1 where c1: "child_of demo_env demo_client ?x a1"
    and f: "get_file_client demo_child_classes demo_env demo_client ?x demo_world =
      (DataLakeFileClient_new demo_child_classes a1, demo_world)"
    by blast
  from child_clients_built_from_parent
    [where K = demo_child_classes and E = demo_env and self = demo_client
       and x = "PStr ''dir''" and w = demo_world]
  obtain a2 where c2: "child_of demo_env demo_client (PStr ''dir'') a2"
    and d: "get_directory_client demo_child_classes demo_env demo_client (PStr ''dir'')
      demo_world = (DataLakeDirectoryClient_new demo_child_classes a2, demo_world)"
    by blast
  from c1 have p1: "child_path a1 = PStr ''a/b''" "child_account_url a1 = ''https://a.dfs/fs''"
      "child_file_system_name a1 = ''fs''"
      "transport (child_pipeline a1) = AsyncTransportWrapper (Transport 7)"
    by (simp_all add: child_of_def demo_client_def demo_pipeline_def)
  from c2 have p2: "child_path a2 = PStr ''dir''" "child_file_system_name a2 = ''fs''"
      "child_credential a2 = PStr ''key''"
    by (simp_all add: child_of_def demo_client_def)
  have n1: "DataLakeFileClient_new demo_child_classes a1 = Inr (DataLakeFileClient a1)"
    by (simp add: demo_child_classes_def demo_path_init_def strip_slashes_def p1)
  have n2: "DataLakeDirectoryClient_new demo_child_classes a2 = Inr (DataLakeDirectoryClient a2)"
    by (simp add: demo_child_classes_def demo_path_init_def strip_slashes_def p2)
  from f d n1 n2 p1 p2 show ?thesis by auto
qed

subsection \<open>Operations as delegations\<close>

lemma find_none: "\<forall>x\<in>set xs. \<not> P x \<Longrightarrow> find P xs = None"
  by (induction xs) auto

lemma bind_keywords_ok:
  "set (map fst named) \<inter> keys extra = {} \<Longrightarrow> bind_keywords named extra = Inr (named @ extra)"
proof -
  assume d: "set (map fst named) \<inter> keys extra = {}"
  have "\<forall>kv\<in>set extra. \<not> fst kv \<in> set (map fst named)"
  proof
    fix kv assume "kv \<in> set extra"
    then have "fst kv \<in> keys extra" by (simp add: keys_def)
    with d show "\<not> fst kv \<in> set (map fst named)" by blast
  qed
  then have "find (\<lambda>kv. fst kv \<in> set (map fst named)) extra = None"
    by (rule find_none)
  then show ?thesis by (simp add: bind_keywords_def)
qed

lemma keys_pop: "keys (snd (dict_pop kw k)) = keys kw - {k}"
  by (auto simp: keys_def dict_pop_def)

lemma delegate_as_await:
  "delegate E self name args kws conv w =
     (case await_container E self name args kws w of
        (Inl e, w') \<Rightarrow> (Inl e, w')
      | (Inr r, w') \<Rightarrow> (conv r, w'))"
  by (simp add: delegate_def await_container_def Let_def split: prod.splits sum.splits)

lemma await_as_delegate:
  "await_container E self name args kws w = delegate E self name args kws Inr w"
  by (simp add: delegate_def await_container_def Let_def split: prod.splits sum.splits)

lemma delegate_effect:
  "requests (snd (delegate E self name args kws conv w)) =
     requests w @ [ContainerCall name args kws] \<and>
   service (snd (delegate E self name args kws conv w)) =
     snd (container_call E (container_client self) name args kws (service w))"
  by (simp add: delegate_def Let_def split: prod.splits sum.splits)

lemma create_file_system_delegates:
  "''metadata'' \<notin> keys kw \<Longrightarrow> ''public_access'' \<notin> keys kw \<Longrightarrow>
   create_file_system E self m pa kw w =
     delegate E self ''create_container'' []
       ([(''metadata'', m), (''public_access'', pa)] @ kw) Inr w"
  by (simp add: create_file_system_def bind_keywords_ok await_as_delegate)

lemma delete_file_system_delegates:
  "delete_file_system E self kw w =
     delegate E self ''delete_container'' [] kw (\<lambda>r. Inr PNone) w"
  by (simp add: delete_file_system_def delegate_as_await)

lemma exists_delegates:
  "exists_file_system E self kw w = delegate E self ''exists'' [] kw Inr w"
  by (simp add: exists_file_system_def await_as_delegate)

lemma get_file_system_properties_delegates:
  "get_file_system_properties E self kw w =
     delegate E self ''get_container_properties'' [] kw
       (\<lambda>r. Inr (convert_from_container_props E r)) w"
  by (simp add: get_file_system_properties_def delegate_as_await)

lemma set_file_system_metadata_delegates:
  "''metadata'' \<notin> keys kw \<Longrightarrow>
   set_file_system_metadata E self m kw w =
     delegate E self ''set_container_metadata'' [] ((''metadata'', m) # kw) Inr w"
  by (simp add: set_file_system_metadata_def bind_keywords_ok await_as_delegate)

lemma set_file_system_access_policy_delegates:
  "''public_access'' \<notin> keys kw \<Longrightarrow>
   set_file_system_access_policy E self si pa kw w =
     delegate E self ''set_container_access_policy'' [si] ((''public_access'', pa) # kw) Inr w"
  by (simp add: set_file_system_access_policy_def bind_keywords_ok await_as_delegate)

lemma get_file_system_access_policy_delegates:
  "get_file_system_access_policy E self kw w =
     delegate E self ''get_container_access_policy'' [] kw (access_policy_from_generated E) w"
  by (simp add: get_file_system_access_policy_def delegate_as_await
      access_policy_from_generated_def split: prod.splits sum.splits)

lemma get_paths_builds_pager:
  assumes "keys kw \<inter> {''path'', ''max_results'', ''page_iterator_class''} = {}"
  shows "get_paths E self path recursive max_results kw w =
     (Inr \<lparr>command =
             \<lparr>func = ListPaths (client self),
              partial_keywords =
                [(''path'', path), (''timeout'', fst (dict_pop kw ''timeout''))] @
                snd (dict_pop kw ''timeout'')\<rparr>,
           paged_args = [recursive],
           paged_keywords =
             [(''path'', path), (''max_results'', max_results),
              (''page_iterator_class'', PClass ''PathPropertiesPaged'')] @
             snd (dict_pop kw ''timeout'')\<rparr>, w)"
proof -
  let ?kw1 = "snd (dict_pop kw ''timeout'')"
  have k: "keys ?kw1 = keys kw - {''timeout''}" by (rule keys_pop)
  have b1: "bind_keywords [(''path'', path), (''timeout'', fst (dict_pop kw ''timeout''))] ?kw1
      = Inr ([(''path'', path), (''timeout'', fst (dict_pop kw ''timeout''))] @ ?kw1)"
    using assms k by (intro bind_keywords_ok) auto
  have b2: "bind_keywords [(''path'', path), (''max_results'', max_results),
        (''page_iterator_class'', PClass ''PathPropertiesPaged'')] ?kw1
      = Inr ([(''path'', path), (''max_results'', max_results),
        (''page_iterator_class'', PClass ''PathPropertiesPaged'')] @ ?kw1)"
    using assms k by (intro bind_keywords_ok) auto
  show ?thesis
    by (simp add: get_paths_def Let_def split_beta b1 b2)
qed

lemma list_deleted_paths_builds_pager:
  assumes "keys kw \<inter> {''showonly'', ''prefix'', ''page_iterator_class''} = {}"
  defines "kw3 \<equiv> snd (dict_pop (snd (dict_pop (snd (dict_pop kw ''path_prefix'')) ''timeout''))
                        ''results_per_page'')"
  shows "list_deleted_paths E self kw w =
     (Inr \<lparr>command =
             \<lparr>func = ListBlobHierarchySegment (datalake_client_for_blob_operation self),
              partial_keywords =
                [(''showonly'', PClass ''ListBlobsIncludeItem.deleted''),
                 (''timeout'', fst (dict_pop (snd (dict_pop kw ''path_prefix'')) ''timeout''))] @
                kw3\<rparr>,
           paged_args = [],
           paged_keywords =
             [(''prefix'', fst (dict_pop kw ''path_prefix'')),
              (''page_iterator_class'', PClass ''DeletedPathPropertiesPaged''),
              (''results_per_page'',
               fst (dict_pop (snd (dict_pop (snd (dict_pop kw ''path_prefix'')) ''timeout''))
                      ''results_per_page''))] @ kw3\<rparr>, w)"
proof -
  let ?t = "fst (dict_pop (snd (dict_pop kw ''path_prefix'')) ''timeout'')"
  let ?p = "fst (dict_pop kw ''path_prefix'')"
  let ?r = "fst (dict_pop (snd (dict_pop (snd (dict_pop kw ''path_prefix'')) ''timeout''))
                      ''results_per_page'')"
  have k: "keys kw3 = keys kw - {''path_prefix'', ''timeout'', ''results_per_page''}"
    by (auto simp: kw3_def keys_pop)
  have b1: "bind_keywords [(''showonly'', PClass ''ListBlobsIncludeItem.deleted''),
        (''timeout'', ?t)] kw3
      = Inr ([(''showonly'', PClass ''ListBlobsIncludeItem.deleted''), (''timeout'', ?t)] @ kw3)"
    using assms(1) k by (intro bind_keywords_ok) auto
  have b2: "bind_keywords [(''prefix'', ?p),
        (''page_iterator_class'', PClass ''DeletedPathPropertiesPaged''),
        (''results_per_page'', ?r)] kw3
      = Inr ([(''prefix'', ?p),
        (''page_iterator_class'', PClass ''DeletedPathPropertiesPaged''),
        (''results_per_page'', ?r)] @ kw3)"
    using assms(1) k by (intro bind_keywords_ok) auto
  show ?thesis
    using b1 b2 by (simp add: list_deleted_paths_def kw3_def Let_def split_beta)
qed


text \<open>
  Claim C2. Each public operation of the asynchronous FileSystemClient is a delegation.
  For keywords that do not repeat a keyword the method writes out itself,
  \<open>create_file_system\<close>, \<open>delete_file_system\<close>, \<open>exists\<close>,
  \<open>get_file_system_properties\<close>, \<open>set_file_system_metadata\<close>,
  \<open>set_file_system_access_policy\<close> and \<open>get_file_system_access_policy\<close> are each one
  call of the ContainerClient method of the matching name with the caller's arguments,
  followed at most by a conversion of the result (none, \<open>None\<close>,
  \<open>_convert_from_container_props\<close>, \<open>PublicAccess._from_generated\<close>); such a
  delegation hands the service exactly one request whatever the outcome, so nothing is
  retried, batched or polled. \<open>get_paths\<close> and \<open>list_deleted_paths\<close> hand the service no
  request: they return the pager over the generated \<open>list_paths\<close> and
  \<open>list_blob_hierarchy_segment\<close> operation, bound to the caller's arguments (the latter
  with \<open>showonly\<close> set to deleted), and leave paging to it.
\<close>

theorem operations_are_delegations:
  "(''metadata'' \<notin> keys kw \<longrightarrow> ''public_access'' \<notin> keys kw \<longrightarrow>
      create_file_system E self m pa kw w =
        delegate E self ''create_container'' []
          ([(''metadata'', m), (''public_access'', pa)] @ kw) Inr w) \<and>
   delete_file_system E self kw w =
     delegate E self ''delete_container'' [] kw (\<lambda>r. Inr PNone) w \<and>
   exists_file_system E self kw w = delegate E self ''exists'' [] kw Inr w \<and>
   get_file_system_properties E self kw w =
     delegate E self ''get_container_properties'' [] kw
       (\<lambda>r. Inr (convert_from_container_props E r)) w \<and>
   (''metadata'' \<notin> keys kw \<longrightarrow>
      set_file_system_metadata E self m kw w =
        delegate E self ''set_container_metadata'' [] ((''metadata'', m) # kw) Inr w) \<and>
   (''public_access'' \<notin> keys kw \<longrightarrow>
      set_file_system_access_policy E self si pa kw w =
        delegate E self ''set_container_access_policy'' [si]
          ((''public_access'', pa) # kw) Inr w) \<and>
   get_file_system_access_policy E self kw w =
     delegate E self ''get_container_access_policy'' [] kw (access_policy_from_generated E) w \<and>
   (keys kw \<inter> {''path'', ''max_results'', ''page_iterator_class''} = {} \<longrightarrow>
      get_paths E self path recursive max_results kw w =
        (Inr \<lparr>command =
                \<lparr>func = ListPaths (client self),
                 partial_keywords =
                   [(''path'', path), (''timeout'', fst (dict_pop kw ''timeout''))] @
                   snd (dict_pop kw ''timeout'')\<rparr>,
              paged_args = [recursive],
              paged_keywords =
                [(''path'', path), (''max_results'', max_results),
                 (''page_iterator_class'', PClass ''PathPropertiesPaged'')] @
                snd (dict_pop kw ''timeout'')\<rparr>, w)) \<and>
   (keys kw \<inter> {''showonly'', ''prefix'', ''page_iterator_class''} = {} \<longrightarrow>
      list_deleted_paths E self kw w =
        (Inr \<lparr>command =
                \<lparr>func = ListBlobHierarchySegment (datalake_client_for_blob_operation self),
                 partial_keywords =
                   (''showonly'', PClass ''ListBlobsIncludeItem.deleted'') #
                   (''timeout'', get_or_none kw ''timeout'') #
                   filter (\<lambda>kv. fst kv \<notin> {''path_prefix'', ''timeout'', ''results_per_page''})
                     kw\<rparr>,
              paged_args = [],
              paged_keywords =
                (''prefix'', get_or_none kw ''path_prefix'') #
                (''page_iterator_class'', PClass ''DeletedPathPropertiesPaged'') #
                (''results_per_page'', get_or_none kw ''results_per_page'') #
                filter (\<lambda>kv. fst kv \<notin> {''path_prefix'', ''timeout'', ''results_per_page''})
                  kw\<rparr>, w)) \<and>
   (\<forall>name args kws conv.
      requests (snd (delegate E self name args kws conv w)) =
        requests w @ [ContainerCall name args kws] \<and>
      service (snd (delegate E self name args kws conv w)) =
        snd (container_call E (container_client self) name args kws (service w)))"
proof -
  have pops: "snd (dict_pop (snd (dict_pop (snd (dict_pop kw ''path_prefix'')) ''timeout''))
        ''results_per_page'') =
      filter (\<lambda>kv. fst kv \<notin> {''path_prefix'', ''timeout'', ''results_per_page''}) kw"
    by (induction kw) (auto simp: dict_pop_def)
  have g1: "fst (dict_pop kw ''path_prefix'') = get_or_none kw ''path_prefix''"
    by (simp add: dict_pop_def get_or_none_def dict_get_def)
  have g2: "fst (dict_pop (snd (dict_pop kw ''path_prefix'')) ''timeout'') =
      get_or_none kw ''timeout''"
    using map_of_filter_other [of "''timeout''" "''path_prefix''" kw]
    by (simp add: dict_pop_def get_or_none_def dict_get_def)
  have g3: "fst (dict_pop (snd (dict_pop (snd (dict_pop kw ''path_prefix'')) ''timeout''))
        ''results_per_page'') = get_or_none kw ''results_per_page''"
    using map_of_filter_other [of "''results_per_page''" "''path_prefix''" kw]
      map_of_filter_other [of "''results_per_page''" "''timeout''"
        "filter (\<lambda>e. fst e \<noteq> ''path_prefix'') kw"]
    by (simp add: dict_pop_def get_or_none_def dict_get_def)
  have ldp: "keys kw \<inter> {''showonly'', ''prefix'', ''page_iterator_class''} = {} \<longrightarrow>
      list_deleted_paths E self kw w =
        (Inr \<lparr>command =
                \<lparr>func = ListBlobHierarchySegment (datalake_client_for_blob_operation self),
                 partial_keywords =
                   (''showonly'', PClass ''ListBlobsIncludeItem.deleted'') #
                   (''timeout'', get_or_none kw ''timeout'') #
                   filter (\<lambda>kv. fst kv \<notin> {''path_prefix'', ''timeout'', ''results_per_page''})
                     kw\<rparr>,
              paged_args = [],
              paged_keywords =
                (''prefix'', get_or_none kw ''path_prefix'') #
                (''page_iterator_class'', PClass ''DeletedPathPropertiesPaged'') #
                (''results_per_page'', get_or_none kw ''results_per_page'') #
                filter (\<lambda>kv. fst kv \<notin> {''path_prefix'', ''timeout'', ''results_per_page''})
                  kw\<rparr>, w)"
  proof
    assume "keys kw \<inter> {''showonly'', ''prefix'', ''page_iterator_class''} = {}"
    from list_deleted_paths_builds_pager [OF this, of E self w]
    show "list_deleted_paths E self kw w =
        (Inr \<lparr>command =
                \<lparr>func = ListBlobHierarchySegment (datalake_client_for_blob_operation self),
                 partial_keywords =
                   (''showonly'', PClass ''ListBlobsIncludeItem.deleted'') #
                   (''timeout'', get_or_none kw ''timeout'') #
                   filter (\<lambda>kv. fst kv \<notin> {''path_prefix'', ''timeout'', ''results_per_page''})
                     kw\<rparr>,
              paged_args = [],
              paged_keywords =
                (''prefix'', get_or_none kw ''path_prefix'') #
                (''page_iterator_class'', PClass ''DeletedPathPropertiesPaged'') #
                (''results_per_page'', get_or_none kw ''results_per_page'') #
                filter (\<lambda>kv. fst kv \<notin> {''path_prefix'', ''timeout'', ''results_per_page''})
                  kw\<rparr>, w)"
      by (simp only: pops g1 g2 g3) simp
  qed
  have eff: "\<forall>name args kws conv.
      requests (snd (delegate E self name args kws conv w)) =
        requests w @ [ContainerCall name args kws] \<and>
      service (snd (delegate E self name args kws conv w)) =
        snd (container_call E (container_client self) name args kws (service w))"
    by (simp add: delegate_effect)
  show ?thesis
    using create_file_system_delegates [of kw E self m pa w]
      delete_file_system_delegates [of E self kw w]
      exists_delegates [of E self kw w]
      get_file_system_properties_delegates [of E self kw w]
      set_file_system_metadata_delegates [of kw E self m w]
      set_file_system_access_policy_delegates [of kw E self si pa w]
      get_file_system_access_policy_delegates [of E self kw w]
      get_paths_builds_pager [of kw E self path recursive max_results w]
      ldp eff
    by blast
qed


theorem operations_are_delegations_witness:
  "create_file_system demo_env demo_client PNone PNone [] \<lparr>service = [], requests = []\<rparr> =
     (Inr (PDict [(''etag'', PStr ''0x1'')]),
      \<lparr>service = [''fs''],
       requests = [ContainerCall ''create_container'' []
                     [(''metadata'', PNone), (''public_access'', PNone)]]\<rparr>) \<and>
   get_file_system_access_policy demo_env demo_client [] demo_world =
     (Inr (PDict [(''public_access'', PClass ''PublicAccess.FileSystem''),
                  (''signed_identifiers'', PList [])]),
      \<lparr>service = [''fs''],
       requests = [ContainerCall ''get_container_access_policy'' [] []]\<rparr>) \<and>
   snd (get_paths demo_env demo_client (PStr ''dir'') (PInt 1) PNone [(''timeout'', PInt 5)]
          demo_world) = demo_world \<and>
   snd (list_deleted_paths demo_env demo_client [(''path_prefix'', PStr ''p'')] demo_world) =
     demo_world"
proof -
  let ?w0 = "\<lparr>service = ([] :: string list), requests = []\<rparr>"
  have k0: "''metadata'' \<notin> keys []" "''public_access'' \<notin> keys []"
    by (simp_all add: keys_def)
  have k1: "keys [(''timeout'', PInt 5)] \<inter> {''path'', ''max_results'', ''page_iterator_class''}
      = {}"
    by (simp add: keys_def)
  have k2: "keys [(''path_prefix'', PStr ''p'')] \<inter>
      {''showonly'', ''prefix'', ''page_iterator_class''} = {}"
    by (simp add: keys_def)
  have d1: "delegate demo_env demo_client ''create_container'' []
      ([(''metadata'', PNone), (''public_access'', PNone)] @ []) Inr ?w0 =
     (Inr (PDict [(''etag'', PStr ''0x1'')]),
      \<lparr>service = [''fs''],
       requests = [ContainerCall ''create_container'' []
                     [(''metadata'', PNone), (''public_access'', PNone)]]\<rparr>)"
    by (simp add: delegate_def demo_env_def demo_client_def demo_container_call_def)
  have d2: "delegate demo_env demo_client ''get_container_access_policy'' [] []
      (access_policy_from_generated demo_env) demo_world =
     (Inr (PDict [(''public_access'', PClass ''PublicAccess.FileSystem''),
                  (''signed_identifiers'', PList [])]),
      \<lparr>service = [''fs''],
       requests = [ContainerCall ''get_container_access_policy'' [] []]\<rparr>)"
    by (simp add: delegate_def demo_env_def demo_client_def demo_container_call_def
        demo_world_def access_policy_from_generated_def subscript_def)
  from operations_are_delegations
    [where kw = "[]" and E = demo_env and self = demo_client and m = PNone and pa = PNone
       and w = ?w0] k0 d1
  have a: "create_file_system demo_env demo_client PNone PNone [] ?w0 =
     (Inr (PDict [(''etag'', PStr ''0x1'')]),
      \<lparr>service = [''fs''],
       requests = [ContainerCall ''create_container'' []
                     [(''metadata'', PNone), (''public_access'', PNone)]]\<rparr>)"
    by simp
  from operations_are_delegations
    [where kw = "[]" and E = demo_env and self = demo_client and w = demo_world] d2
  have b: "get_file_system_access_policy demo_env demo_client [] demo_world =
     (Inr (PDict [(''public_access'', PClass ''PublicAccess.FileSystem''),
                  (''signed_identifiers'', PList [])]),
      \<lparr>service = [''fs''],
       requests = [ContainerCall ''get_container_access_policy'' [] []]\<rparr>)"
    by simp
  from operations_are_delegations
    [where kw = "[(''timeout'', PInt 5)]" and E = demo_env and self = demo_client
       and w = demo_world and path = "PStr ''dir''" and recursive = "PInt 1"
       and max_results = PNone] k1
  have c: "snd (get_paths demo_env demo_client (PStr ''dir'') (PInt 1) PNone
      [(''timeout'', PInt 5)] demo_world) = demo_world"
    by simp
  from operations_are_delegations
    [where kw = "[(''path_prefix'', PStr ''p'')]" and E = demo_env and self = demo_client
       and w = demo_world] k2
  have d: "snd (list_deleted_paths demo_env demo_client [(''path_prefix'', PStr ''p'')]
      demo_world) = demo_world"
    by simp
  from a b c d show ?thesis by simp
qed

section \<open>Properties of ApplicationInsightsManagementClient\<close>

lemma deepcopy_extends:
  "deepcopy h a = Inr (c, h1) \<Longrightarrow> \<exists>xs. h1 = h @ xs \<and> length h \<le> c \<and> c < length h1"
  by (auto simp: deepcopy_def split: if_splits heap_obj.splits)

text \<open>The copy has headers of its own, or it is the shallow copy of a request with a stream.\<close>

lemma deepcopy_request:
  assumes "deepcopy h a = Inr (c, h1)" and "h1 ! c = Request rc"
  shows "length h \<le> req_headers rc \<or>
         (h ! a = Request rc \<and> \<not> deep_copyable (req_content rc) \<and> req_headers rc < length h)"
  using assms
  by (auto simp: deepcopy_def nth_append split: if_splits heap_obj.splits)

text \<open>The pipeline changes the request it is handed and that request's headers only.\<close>

lemma client_send_request_nth:
  assumes "b \<noteq> a"
    and "\<forall>r hs. h ! a = Request r \<longrightarrow> h ! req_headers r = Headers hs \<longrightarrow> b \<noteq> req_headers r"
  shows "fst (snd (client_send_request C h a kw n)) ! b = h ! b"
  using assms
  by (auto simp: client_send_request_def Let_def split: heap_obj.splits prod.splits)

lemma send_request_op_nth:
  assumes a: "a < length h"
    and o: "\<forall>r hs. h ! request = Request r \<longrightarrow> \<not> deep_copyable (req_content r) \<longrightarrow>
              h ! req_headers r = Headers hs \<longrightarrow> a \<noteq> req_headers r"
  shows "fst (snd (send_request_op C h request kw n)) ! a = h ! a"
proof (cases "deepcopy h request")
  case (Inl e)
  then show ?thesis by (simp add: send_request_op_def)
next
  case (Inr p)
  obtain c h1 where p: "p = (c, h1)" by (cases p)
  from deepcopy_extends [OF Inr [unfolded p]]
  obtain xs where h1: "h1 = h @ xs" and c: "length h \<le> c" "c < length h1" by blast
  have old: "h1 ! i = h ! i" if "i < length h" for i
    using that h1 by (simp add: nth_append)
  show ?thesis
  proof (cases "h1 ! c")
    case (Headers hs)
    with Inr p old [OF a] show ?thesis by (simp add: send_request_op_def)
  next
    case (Request rc)
    show ?thesis
    proof (cases "format_url C (req_url rc)")
      case (Inl e)
      with Inr p Request old [OF a] show ?thesis by (simp add: send_request_op_def)
    next
      case u: (Inr u)
      let ?h2 = "h1[c := Request (rc\<lparr>req_url := u\<rparr>)]"
      have ne: "a \<noteq> c"
        using a c by simp
      have h2c: "?h2 ! c = Request (rc\<lparr>req_url := u\<rparr>)"
        using c by simp
      have "a \<noteq> req_headers rc" if hd: "?h2 ! req_headers rc = Headers hs" for hs
      proof -
        from deepcopy_request [OF Inr [unfolded p] Request]
        consider "length h \<le> req_headers rc"
          | "h ! request = Request rc" "\<not> deep_copyable (req_content rc)"
            "req_headers rc < length h"
          by blast
        then show ?thesis
        proof cases
          case 1
          with a show ?thesis by simp
        next
          case 2
          from 2(3) c have "?h2 ! req_headers rc = h ! req_headers rc"
            by (simp add: old)
          with hd have "h ! req_headers rc = Headers hs" by simp
          with o 2 show ?thesis by blast
        qed
      qed
      with h2c have "\<forall>r hs. ?h2 ! c = Request r \<longrightarrow> ?h2 ! req_headers r = Headers hs \<longrightarrow>
          a \<noteq> req_headers r"
        by auto
      from client_send_request_nth [OF ne this, of C kw n]
      have "fst (snd (client_send_request C ?h2 c kw n)) ! a = ?h2 ! a" .
      also have "\<dots> = h ! a"
        using ne old [OF a] by simp
      finally show ?thesis
        using Inr p Request u by (simp add: send_request_op_def)
    qed
  qed
qed

text \<open>A body that can be deep-copied: the pipeline works on two new objects.\<close>

lemma send_request_op_deep:
  assumes a: "request < length h" and r: "h ! request = Request r"
    and hr: "req_headers r < length h" and hs: "h ! req_headers r = Headers hs"
    and b: "deep_copyable (req_content r)"
    and u: "format_url C (req_url r) = Inr u"
  shows "send_request_op C h request kw n =
         (case send_request C
                 \<lparr>v_method = req_method r, v_url = u, v_headers = hs,
                  v_content = req_content r\<rparr> kw n of
            (res, v, n') \<Rightarrow>
              (res,
               h @ [Headers (v_headers v),
                    Request \<lparr>req_method = v_method v, req_url = v_url v,
                             req_headers = length h, req_content = v_content v\<rparr>],
               n'))"
proof -
  let ?h1 = "h @ [Headers hs, Request (r\<lparr>req_headers := length h\<rparr>)]"
  have d: "deepcopy h request = Inr (Suc (length h), ?h1)"
    using a r hr hs b by (simp add: deepcopy_def)
  have n1: "?h1 ! Suc (length h) = Request (r\<lparr>req_headers := length h\<rparr>)"
    by (simp add: nth_append)
  let ?h2 = "h @ [Headers hs, Request (r\<lparr>req_headers := length h, req_url := u\<rparr>)]"
  have e: "?h1[Suc (length h) := Request (r\<lparr>req_headers := length h, req_url := u\<rparr>)] = ?h2"
    by (simp add: list_update_append)
  have n2: "?h2 ! Suc (length h) = Request (r\<lparr>req_headers := length h, req_url := u\<rparr>)"
    by (simp add: nth_append)
  have n3: "?h2 ! length h = Headers hs"
    by (simp add: nth_append)
  show ?thesis
    using u
    by (simp only: send_request_op_def d n1 sum.case prod.case heap_obj.case
          http_request.simps e)
       (simp add: client_send_request_def n2 n3 Let_def list_update_append
          split: prod.splits)
qed

text \<open>A stream as body: the pipeline works on one new object and on the caller's headers.\<close>

lemma send_request_op_shallow:
  assumes a: "request < length h" and r: "h ! request = Request r"
    and hr: "req_headers r < length h" and hs: "h ! req_headers r = Headers hs"
    and b: "\<not> deep_copyable (req_content r)"
    and u: "format_url C (req_url r) = Inr u"
  shows "send_request_op C h request kw n =
         (case send_request C
                 \<lparr>v_method = req_method r, v_url = u, v_headers = hs,
                  v_content = req_content r\<rparr> kw n of
            (res, v, n') \<Rightarrow>
              (res,
               h[req_headers r := Headers (v_headers v)] @
                 [Request \<lparr>req_method = v_method v, req_url = v_url v,
                           req_headers = req_headers r, req_content = v_content v\<rparr>],
               n'))"
proof -
  let ?h1 = "h @ [Request r]"
  have d: "deepcopy h request = Inr (length h, ?h1)"
    using a r hr hs b by (simp add: deepcopy_def)
  have n1: "?h1 ! length h = Request r"
    by simp
  let ?h2 = "h @ [Request (r\<lparr>req_url := u\<rparr>)]"
  have e: "?h1[length h := Request (r\<lparr>req_url := u\<rparr>)] = ?h2"
    by simp
  have n2: "?h2 ! length h = Request (r\<lparr>req_url := u\<rparr>)"
    by simp
  have n3: "?h2 ! req_headers r = Headers hs"
    using hr hs by (simp add: nth_append)
  show ?thesis
    using u hr
    by (simp only: send_request_op_def d n1 sum.case prod.case heap_obj.case
          http_request.simps e)
       (simp add: client_send_request_def n2 n3 Let_def list_update_append
          split: prod.splits)
qed

text \<open>
  Claim C9, as stated, fails: a request whose body is a stream is not left unchanged.
  \<open>deepcopy\<close> cannot copy the stream and falls back on a shallow copy, which shares the
  headers with the caller's request; the header that the pipeline adds to the request
  it sends is afterwards in the caller's request as well.
\<close>

theorem stream_request_headers_changed_counterexample:
  "demo_stream_heap ! 1 =
     Request \<lparr>req_method = ''POST'', req_url = ''/subscriptions'', req_headers = 0,
              req_content = Stream 5\<rparr> \<and>
   demo_stream_heap ! 0 = Headers [(''Accept'', ''application/json'')] \<and>
   fst (snd (send_request_op demo_arm_client demo_stream_heap 1 [] 0)) ! 0 =
     Headers [(''Authorization'', ''Bearer''), (''Accept'', ''application/json'')]"
  by (simp add: demo_stream_heap_def send_request_op_def deepcopy_def deep_copyable_def
      client_send_request_def demo_arm_client_def Let_def)

text \<open>
  Claim C9, amended. For every request passed to \<open>_send_request\<close>, the request object
  itself is afterwards as it was, with the URL, the method, the body and the headers
  reference it had, whatever the pipeline does to the request it is handed and whether
  or not the call fails. When the body can be deep-copied, every object the caller had
  is as it was, the header mapping included: the pipeline is handed a deep copy with
  the URL replaced by \<open>format_url\<close> of it. When the body cannot be deep-copied (a
  stream), the copy is shallow: the pipeline is handed a new request with the formatted
  URL that shares the body and the header mapping with the original, every object the
  caller had except that header mapping is as it was, and the header mapping holds
  afterwards the headers the pipeline left in the request it sent.
\<close>

theorem send_request_copies_then_sends:
  fixes C :: "('n, 'p) arm_client"
  defines "out \<equiv> (\<lambda>h request kw n. send_request_op C h request kw n)"
  defines "sent \<equiv> (\<lambda>r u hs kw n.
      send_request C \<lparr>v_method = req_method r, v_url = u, v_headers = hs,
                      v_content = req_content r\<rparr> kw n)"
  shows
    "(request < length h \<longrightarrow> fst (snd (out h request kw n)) ! request = h ! request) \<and>
     (\<forall>a < length h.
        (\<forall>r. h ! request = Request r \<longrightarrow> \<not> deep_copyable (req_content r) \<longrightarrow>
           a \<noteq> req_headers r) \<longrightarrow>
        fst (snd (out h request kw n)) ! a = h ! a) \<and>
     (\<forall>r hs u. request < length h \<longrightarrow> h ! request = Request r \<longrightarrow>
        req_headers r < length h \<longrightarrow> h ! req_headers r = Headers hs \<longrightarrow>
        format_url C (req_url r) = Inr u \<longrightarrow>
        fst (out h request kw n) = fst (sent r u hs kw n) \<and>
        snd (snd (out h request kw n)) = snd (snd (sent r u hs kw n)) \<and>
        (deep_copyable (req_content r) \<longrightarrow>
           take (length h) (fst (snd (out h request kw n))) = h) \<and>
        (\<not> deep_copyable (req_content r) \<longrightarrow>
           take (length h) (fst (snd (out h request kw n))) =
             h[req_headers r := Headers (v_headers (fst (snd (sent r u hs kw n))))]))"
proof -
  let ?h' = "fst (snd (send_request_op C h request kw n))"
  have self: "?h' ! request = h ! request" if "request < length h"
  proof (rule send_request_op_nth [OF that], intro allI impI)
    fix r hs
    assume "h ! request = Request r" and "h ! req_headers r = Headers hs"
    then show "request \<noteq> req_headers r" by auto
  qed
  have others: "?h' ! a = h ! a"
    if "a < length h"
      and "\<forall>r. h ! request = Request r \<longrightarrow> \<not> deep_copyable (req_content r) \<longrightarrow>
             a \<noteq> req_headers r" for a
    using that by (intro send_request_op_nth) auto
  have sends: "fst (send_request_op C h request kw n) = fst (sent r u hs kw n) \<and>
      snd (snd (send_request_op C h request kw n)) = snd (snd (sent r u hs kw n)) \<and>
      (deep_copyable (req_content r) \<longrightarrow> take (length h) ?h' = h) \<and>
      (\<not> deep_copyable (req_content r) \<longrightarrow>
         take (length h) ?h' =
           h[req_headers r := Headers (v_headers (fst (snd (sent r u hs kw n))))])"
    if w: "request < length h" "h ! request = Request r" "req_headers r < length h"
      "h ! req_headers r = Headers hs" "format_url C (req_url r) = Inr u" for r hs u
  proof (cases "deep_copyable (req_content r)")
    case True
    from send_request_op_deep [OF w(1-4) True w(5), of kw n]
    show ?thesis
      using True by (simp add: sent_def split: prod.splits)
  next
    case False
    from send_request_op_shallow [OF w(1-4) False w(5), of kw n]
    show ?thesis
      using False by (simp add: sent_def split: prod.splits)
  qed
  show ?thesis
    unfolding out_def
    using self others sends by blast
qed

theorem send_request_copies_then_sends_witness:
  "fst (snd (send_request_op demo_arm_client demo_heap 1 [] 0)) ! 1 = demo_heap ! 1 \<and>
   fst (snd (send_request_op demo_arm_client demo_heap 1 [] 0)) ! 0 =
     Headers [(''Accept'', ''application/json'')] \<and>
   fst (send_request_op demo_arm_client demo_heap 1 [] 0) = Inr 200 \<and>
   snd (snd (send_request_op demo_arm_client demo_heap 1 [] 0)) = 1 \<and>
   fst (snd (send_request_op demo_arm_client demo_stream_heap 1 [] 0)) ! 1 =
     demo_stream_heap ! 1 \<and>
   take 2 (fst (snd (send_request_op demo_arm_client demo_stream_heap 1 [] 0))) =
     [Headers [(''Authorization'', ''Bearer''), (''Accept'', ''application/json'')],
      demo_stream_heap ! 1]"
proof -
  let ?r = "\<lparr>req_method = ''GET'', req_url = ''/subscriptions'', req_headers = 0,
             req_content = NoBody\<rparr>"
  let ?s = "\<lparr>req_method = ''POST'', req_url = ''/subscriptions'', req_headers = 0,
             req_content = Stream 5\<rparr>"
  let ?u = "''https://management.azure.com/subscriptions''"
  let ?hs = "[(''Accept'', ''application/json'')]"
  have l: "(1::nat) < length demo_heap" "demo_heap ! 1 = Request ?r"
    "req_headers ?r < length demo_heap" "demo_heap ! req_headers ?r = Headers ?hs"
    "format_url demo_arm_client (req_url ?r) = Inr ?u"
    by (simp_all add: demo_heap_def demo_arm_client_def)
  have m: "(1::nat) < length demo_stream_heap" "demo_stream_heap ! 1 = Request ?s"
    "req_headers ?s < length demo_stream_heap" "demo_stream_heap ! req_headers ?s = Headers ?hs"
    "format_url demo_arm_client (req_url ?s) = Inr ?u"
    by (simp_all add: demo_stream_heap_def demo_arm_client_def)
  have dc: "deep_copyable (req_content ?r)" "\<not> deep_copyable (req_content ?s)"
    by (simp_all add: deep_copyable_def)
  have s: "send_request demo_arm_client
      \<lparr>v_method = ''GET'', v_url = ?u, v_headers = ?hs, v_content = NoBody\<rparr> [] 0 =
      (Inr 200,
       \<lparr>v_method = ''GET'', v_url = ?u,
        v_headers = [(''Authorization'', ''Bearer''), (''Accept'', ''application/json'')],
        v_content = NoBody\<rparr>, 1)"
    by (simp add: demo_arm_client_def)
  have t: "send_request demo_arm_client
      \<lparr>v_method = ''POST'', v_url = ?u, v_headers = ?hs, v_content = Stream 5\<rparr> [] 0 =
      (Inr 200,
       \<lparr>v_method = ''POST'', v_url = ?u,
        v_headers = [(''Authorization'', ''Bearer''), (''Accept'', ''application/json'')],
        v_content = Stream 5\<rparr>, 1)"
    by (simp add: demo_arm_client_def)
  note T = send_request_copies_then_sends
    [where C = demo_arm_client and h = demo_heap and request = 1 and kw = "[]" and n = 0]
  note S = send_request_copies_then_sends
    [where C = demo_arm_client and h = demo_stream_heap and request = 1 and kw = "[]" and n = 0]
  from T [THEN conjunct1] l(1)
  have a: "fst (snd (send_request_op demo_arm_client demo_heap 1 [] 0)) ! 1 = demo_heap ! 1"
    by simp
  from T [THEN conjunct2, THEN conjunct2, rule_format, OF l]
  have c: "fst (send_request_op demo_arm_client demo_heap 1 [] 0) = Inr 200"
    "snd (snd (send_request_op demo_arm_client demo_heap 1 [] 0)) = 1"
    "take (length demo_heap) (fst (snd (send_request_op demo_arm_client demo_heap 1 [] 0))) =
       demo_heap"
    using dc(1) by (simp_all add: s)
  have z: "(0::nat) < length demo_heap"
    by (simp add: demo_heap_def)
  have q: "\<forall>r. demo_heap ! 1 = Request r \<longrightarrow> \<not> deep_copyable (req_content r) \<longrightarrow>
      0 \<noteq> req_headers r"
    using l(2) dc(1) by auto
  from T [THEN conjunct2, THEN conjunct1, rule_format, OF z q [rule_format]]
  have "fst (snd (send_request_op demo_arm_client demo_heap 1 [] 0)) ! 0 = demo_heap ! 0" .
  also have "demo_heap ! 0 = Headers ?hs"
    by (simp add: demo_heap_def)
  finally have b: "fst (snd (send_request_op demo_arm_client demo_heap 1 [] 0)) ! 0 =
      Headers ?hs" .
  from S [THEN conjunct1] m(1)
  have d: "fst (snd (send_request_op demo_arm_client demo_stream_heap 1 [] 0)) ! 1 =
      demo_stream_heap ! 1"
    by simp
  from S [THEN conjunct2, THEN conjunct2, rule_format, OF m]
  have "take (length demo_stream_heap)
      (fst (snd (send_request_op demo_arm_client demo_stream_heap 1 [] 0))) =
      demo_stream_heap[req_headers ?s := Headers
        [(''Authorization'', ''Bearer''), (''Accept'', ''application/json'')]]"
    using dc(2) by (simp add: t)
  then have e: "take 2 (fst (snd (send_request_op demo_arm_client demo_stream_heap 1 [] 0))) =
      [Headers [(''Authorization'', ''Bearer''), (''Accept'', ''application/json'')],
       demo_stream_heap ! 1]"
    by (simp add: demo_stream_heap_def numeral_2_eq_2)
  from a b c(1,2) d e show ?thesis by simp
qed

section \<open>Where errors come from\<close>

lemma call_registry_func_result:
  "call_registry_func enc g n s fmt kw w = (res, w') \<Longrightarrow>
   registry_method enc g n s fmt kw (registry w) = (res, registry w') \<and>
   calls w' = calls w @ [CallRegistry (auto_register_schema_func enc) g n s fmt kw]"
  by (auto simp: call_registry_func_def registry_method_def Let_def
      split: prod.splits registry_func.splits)

lemma get_schema_id_error:
  assumes "get_schema_id enc n s kw w = (Inl e, w')"
  shows "(\<not> list_all (\<lambda>kv. hashable (snd kv)) kw \<and> e = TypeError unhashable_msg \<and> w' = w) \<or>
     (\<exists>k. repeated_keyword [''self'', ''schema_name'', ''schema_str''] kw = Some k \<and>
          e = TypeError (multiple_argument_msg k) \<and>
          calls w' = calls w \<and> registry w' = registry w) \<or>
     (repeated_keyword [''self'', ''schema_name'', ''schema_str''] kw = None \<and>
      registry_method enc (schema_group enc) n s ''Avro'' kw (registry w) = (Inl e, registry w') \<and>
      calls w' = calls w @
        [CallRegistry (auto_register_schema_func enc) (schema_group enc) n s ''Avro'' kw])"
proof (cases "list_all (\<lambda>kv. hashable (snd kv)) kw")
  case False
  with assms show ?thesis by (simp add: get_schema_id_def)
next
  case True
  let ?w1 = "w\<lparr>schema_id_cache := lru_miss (schema_id_cache w)\<rparr>"
  show ?thesis
  proof (cases "repeated_keyword [''self'', ''schema_name'', ''schema_str''] kw")
    case (Some k)
    with assms True have "e = TypeError (multiple_argument_msg k) \<and> w' = ?w1"
      by (auto simp: get_schema_id_def Let_def split: option.splits)
    with Some show ?thesis by simp
  next
    case None
    obtain res w2 where r: "call_registry_func enc (schema_group enc) n s ''Avro'' kw ?w1
        = (res, w2)"
      by (cases "call_registry_func enc (schema_group enc) n s ''Avro'' kw ?w1") auto
    from call_registry_func_result [OF r]
    have m: "registry_method enc (schema_group enc) n s ''Avro'' kw (registry w) =
        (res, registry w2)"
      and c: "calls w2 = calls w @
          [CallRegistry (auto_register_schema_func enc) (schema_group enc) n s ''Avro'' kw]"
      by simp_all
    from assms True None r have "res = Inl e \<and> w' = w2"
      by (auto simp: get_schema_id_def Let_def split: option.splits sum.splits)
    with m c None show ?thesis by simp
  qed
qed

lemma encode_without_group:
  "no_group (schema_group enc) \<Longrightarrow>
   encode U enc content s mt ro kw w = (Inl (TypeError group_name_msg), w)"
  by (simp add: encode_def)

lemma encode_error:
  assumes "encode U enc content s mt ro kw w = (Inl e, w')"
    and "\<not> no_group (schema_group enc)"
  shows "(validate_schema U (avro_encoder enc) s = Inl e \<and> w' = w) \<or>
     (\<exists>fn. validate_schema U (avro_encoder enc) s = Inr fn \<and>
        ((\<not> list_all (\<lambda>kv. hashable (snd kv)) (or_empty ro) \<and>
          e = TypeError unhashable_msg \<and> w' = w) \<or>
         (\<exists>k. repeated_keyword [''self'', ''schema_name'', ''schema_str''] (or_empty ro) =
                Some k \<and>
              e = TypeError (multiple_argument_msg k) \<and>
              calls w' = calls w \<and> registry w' = registry w) \<or>
         (repeated_keyword [''self'', ''schema_name'', ''schema_str''] (or_empty ro) = None \<and>
          registry_method enc (schema_group enc) fn s ''Avro'' (or_empty ro) (registry w) =
            (Inl e, registry w') \<and>
          calls w' = calls w @
            [CallRegistry (auto_register_schema_func enc) (schema_group enc) fn s ''Avro''
               (or_empty ro)]) \<or>
         (\<exists>k. repeated_keyword
                [''content'', ''raw_input_schema'', ''schema_id'', ''message_type''] kw =
                Some k \<and>
              e = TypeError (multiple_values_msg k)) \<or>
         (\<exists>sid. repeated_keyword
                  [''content'', ''raw_input_schema'', ''schema_id'', ''message_type''] kw =
                  None \<and>
                create_message_content U (avro_encoder enc) content s sid mt kw = Inl e)))"
proof (cases "validate_schema U (avro_encoder enc) s")
  case (Inl e0)
  with assms show ?thesis by (simp add: encode_def)
next
  case (Inr fn)
  obtain res w1 where g: "get_schema_id enc fn s (or_empty ro) w = (res, w1)"
    by (cases "get_schema_id enc fn s (or_empty ro) w") auto
  show ?thesis
  proof (cases res)
    case il: (Inl e1)
    with assms Inr g have "e1 = e" "w1 = w'"
      by (simp_all add: encode_def)
    with g il have "get_schema_id enc fn s (or_empty ro) w = (Inl e, w')"
      by simp
    from get_schema_id_error [OF this] Inr
    show ?thesis by blast
  next
    case ir: (Inr sid)
    show ?thesis
    proof (cases "repeated_keyword
        [''content'', ''raw_input_schema'', ''schema_id'', ''message_type''] kw")
      case None
      with assms Inr g ir
      have "create_message_content U (avro_encoder enc) content s sid mt kw = Inl e"
        by (simp add: encode_def Let_def split: if_splits)
      with Inr None show ?thesis by blast
    next
      case (Some k)
      with assms Inr g ir
      have "e = TypeError (multiple_values_msg k)"
        by (simp add: encode_def Let_def split: if_splits)
      with Inr Some show ?thesis by blast
    qed
  qed
qed

lemma bind_keywords_error:
  assumes "bind_keywords named extra = Inl e"
  shows "\<exists>k. k \<in> set (map fst named) \<and> k \<in> keys extra \<and> e = TypeError (multiple_values_msg k)"
proof (cases "find (\<lambda>kv. fst kv \<in> set (map fst named)) extra")
  case None
  with assms show ?thesis by (simp add: bind_keywords_def)
next
  case (Some kv)
  then have "fst kv \<in> set (map fst named)" "kv \<in> set extra"
    by (auto simp: find_Some_iff)
  moreover from this(2) have "fst kv \<in> keys extra"
    by (simp add: keys_def)
  moreover from assms Some have "e = TypeError (multiple_values_msg (fst kv))"
    by (simp add: bind_keywords_def)
  ultimately show ?thesis
    by blast
qed

lemma bind_keywords_result:
  assumes "bind_keywords named extra = Inr kws"
  shows "set (map fst named) \<inter> keys extra = {}"
proof -
  from assms have "find (\<lambda>kv. fst kv \<in> set (map fst named)) extra = None"
    by (simp add: bind_keywords_def split: option.splits)
  then have n: "\<forall>kv\<in>set extra. fst kv \<notin> set (map fst named)"
    unfolding find_None_iff by blast
  show ?thesis
  proof (rule equals0I)
    fix k
    assume "k \<in> set (map fst named) \<inter> keys extra"
    then have k: "k \<in> set (map fst named)" and "k \<in> keys extra"
      by simp_all
    then obtain kv where kv: "kv \<in> set extra" "fst kv = k"
      by (auto simp: keys_def)
    from n kv(1) have "fst kv \<notin> set (map fst named)"
      by (rule bspec)
    with k kv(2) show False
      by blast
  qed
qed

lemma child_of_string:
  "get_file_client K E self (PStr name) w =
     (DataLakeFileClient_new K (child_arguments E self (PStr name)), w) \<and>
   get_directory_client K E self (PStr name) w =
     (DataLakeDirectoryClient_new K (child_arguments E self (PStr name)), w)"
  by (simp add: get_file_client_def get_directory_client_def name_of_def py_str_def)

lemma undelete_path_error:
  assumes "undelete_path K E self name did kw w = (Inl e, w')"
  defines "src \<equiv> snd (snd (undelete_path_options E self name did))"
  shows "(\<exists>k. k \<in> {''undelete_source'', ''cls''} \<and> k \<in> keys kw \<and>
            e = TypeError (multiple_values_msg k) \<and> w' = w) \<or>
     ({''undelete_source'', ''cls''} \<inter> keys kw = {} \<and>
      (\<exists>pc e0.
         requests w' = requests w @ [PathUndelete pc src kw] \<and>
         e = (if is_http_response_error e0 then process_storage_error E e0 else e0) \<and>
         (path_undelete E pc src kw (service w) = (Inl e0, service w') \<or>
          (\<exists>is_file. path_undelete E pc src kw (service w) = (Inr is_file, service w') \<and>
             (if is_file then DataLakeFileClient_new K (child_arguments E self (PStr name))
              else DataLakeDirectoryClient_new K (child_arguments E self (PStr name))) =
               Inl e0))))"
proof -
  obtain q u src' where o: "undelete_path_options E self name did = (q, u, src')"
    by (cases "undelete_path_options E self name did") auto
  then have src: "src = src'"
    by (simp add: src_def)
  let ?pc = "AzureDataLakeStorageRESTAPI_new E u
               [(''filesystem'', PStr (file_system_name self)), (''path'', PStr name)]
               \<lparr>transport = AsyncTransportWrapper (transport (pipeline self)),
                impl_policies = impl_policies (pipeline self)\<rparr>"
  let ?named = "[(''undelete_source'', src'), (''cls'', PClass ''is_file_path'')]"
  show ?thesis
  proof (cases "bind_keywords ?named kw")
    case (Inl e1)
    with assms(1) o have "e = e1 \<or> e = process_storage_error E e1" "w' = w"
      "is_http_response_error e1 \<longrightarrow> e = process_storage_error E e1"
      "\<not> is_http_response_error e1 \<longrightarrow> e = e1"
      by (auto simp: undelete_path_def Let_def split: if_splits)
    moreover from bind_keywords_error [OF Inl]
    obtain k where "k \<in> {''undelete_source'', ''cls''}" "k \<in> keys kw"
      "e1 = TypeError (multiple_values_msg k)"
      by auto
    ultimately show ?thesis
      by (auto simp: is_http_response_error_def)
  next
    case (Inr kws)
    from bind_keywords_result [OF Inr]
    have dis: "{''undelete_source'', ''cls''} \<inter> keys kw = {}"
      by simp
    obtain res s' where p: "path_undelete E ?pc src' kw (service w) = (res, s')"
      by (cases "path_undelete E ?pc src' kw (service w)") auto
    let ?w1 = "\<lparr>service = s', requests = requests w @ [PathUndelete ?pc src' kw]\<rparr>"
    show ?thesis
    proof (cases res)
      case il: (Inl e0)
      with assms(1) o p Inr
      have "w' = ?w1"
        and "e = (if is_http_response_error e0 then process_storage_error E e0 else e0)"
        by (auto simp: undelete_path_def Let_def split: if_splits)
      with p il src
      have "\<exists>pc e0.
         requests w' = requests w @ [PathUndelete pc src kw] \<and>
         e = (if is_http_response_error e0 then process_storage_error E e0 else e0) \<and>
         (path_undelete E pc src kw (service w) = (Inl e0, service w') \<or>
          (\<exists>is_file. path_undelete E pc src kw (service w) = (Inr is_file, service w') \<and>
             (if is_file then DataLakeFileClient_new K (child_arguments E self (PStr name))
              else DataLakeDirectoryClient_new K (child_arguments E self (PStr name))) =
               Inl e0))"
        by (intro exI [of _ ?pc] exI [of _ e0]) simp
      with dis show ?thesis
        by (intro disjI2 conjI)
    next
      case ir: (Inr is_file)
      let ?new = "if is_file then DataLakeFileClient_new K (child_arguments E self (PStr name))
          else DataLakeDirectoryClient_new K (child_arguments E self (PStr name))"
      from assms(1) o p Inr ir
      have "\<exists>e0. ?new = Inl e0 \<and> w' = ?w1 \<and>
          e = (if is_http_response_error e0 then process_storage_error E e0 else e0)"
        by (auto simp: undelete_path_def Let_def child_of_string split: if_splits sum.splits)
      then obtain e0 where n: "?new = Inl e0" and w: "w' = ?w1"
        and e: "e = (if is_http_response_error e0 then process_storage_error E e0 else e0)"
        by blast
      from p ir w have "path_undelete E ?pc src kw (service w) = (Inr is_file, service w')"
        by (simp add: src)
      with n w e src
      have "\<exists>pc e0.
         requests w' = requests w @ [PathUndelete pc src kw] \<and>
         e = (if is_http_response_error e0 then process_storage_error E e0 else e0) \<and>
         (path_undelete E pc src kw (service w) = (Inl e0, service w') \<or>
          (\<exists>is_file. path_undelete E pc src kw (service w) = (Inr is_file, service w') \<and>
             (if is_file then DataLakeFileClient_new K (child_arguments E self (PStr name))
              else DataLakeDirectoryClient_new K (child_arguments E self (PStr name))) =
               Inl e0))"
        by (intro exI [of _ ?pc] exI [of _ e0]) auto
      with dis show ?thesis
        by (intro disjI2 conjI)
    qed
  qed
qed


text \<open>
  Claim C1, as stated, fails: an encoder built without \<open>group_name\<close> makes \<open>encode\<close>
  raise the TypeError that \<open>encode\<close> itself constructs, with the world untouched and so
  before any request.
\<close>

theorem encode_without_group_counterexample:
  "AvroEncoder_init 1 (Some ref_client) None None None = Inr nogroup_encoder \<and>
   encode ref_utils nogroup_encoder (PDict []) ''rec'' None None [] (init_world demo_registry) =
     (Inl (TypeError group_name_msg), init_world demo_registry) \<and>
   calls (init_world demo_registry) = []"
  by (simp add: AvroEncoder_init_def nogroup_encoder_def encode_def no_group_def
      init_world_def)

text \<open>
  Claim C1, amended, for the two operations the claim names. \<open>AvroEncoder.encode\<close> raises
  its own TypeError, before any request, whenever the encoder's group name is \<open>None\<close> or
  empty. With a group name, every error of \<open>encode\<close> is one of these: the error
  \<open>validate_schema\<close> raised, the TypeError of an unhashable request option, or the
  TypeError of a request option named like a parameter of \<open>_get_schema_id\<close>, all three
  with nothing requested; the error of the one call of the registry client's method,
  unchanged; the TypeError of a keyword that repeats one that \<open>encode\<close> writes out for
  \<open>create_message_content\<close>; or the error \<open>create_message_content\<close> raised. Every error
  of \<open>FileSystemClient._undelete_path\<close> is one of these: the TypeError of a keyword
  \<open>undelete_source\<close> or \<open>cls\<close> given by the caller, with nothing requested; after the one
  call of the generated operation, the error that operation raised or, when the
  operation succeeded, the error the child client's constructor raised, in both cases
  through \<open>process_storage_error\<close> when it is an HttpResponseError and unchanged
  otherwise.
\<close>

theorem encode_and_undelete_error_origins:
  fixes U :: "'m utils" and enc :: "'r encoder" and w :: "'r world"
    and K :: "'pc child_classes" and E :: "('cc, 's) fs_env" and fw :: "'s fs_world"
  shows
  "(no_group (schema_group enc) \<longrightarrow>
      encode U enc content s mt ro kw w = (Inl (TypeError group_name_msg), w)) \<and>
   (\<not> no_group (schema_group enc) \<longrightarrow>
      (\<forall>e w'. encode U enc content s mt ro kw w = (Inl e, w') \<longrightarrow>
         (validate_schema U (avro_encoder enc) s = Inl e \<and> w' = w) \<or>
         (\<exists>fn. validate_schema U (avro_encoder enc) s = Inr fn \<and>
            ((\<not> list_all (\<lambda>kv. hashable (snd kv)) (or_empty ro) \<and>
              e = TypeError unhashable_msg \<and> w' = w) \<or>
             (\<exists>k. repeated_keyword [''self'', ''schema_name'', ''schema_str''] (or_empty ro) =
                    Some k \<and>
                  e = TypeError (multiple_argument_msg k) \<and>
                  calls w' = calls w \<and> registry w' = registry w) \<or>
             (repeated_keyword [''self'', ''schema_name'', ''schema_str''] (or_empty ro) =
                None \<and>
              registry_method enc (schema_group enc) fn s ''Avro'' (or_empty ro) (registry w) =
                (Inl e, registry w') \<and>
              calls w' = calls w @
                [CallRegistry (auto_register_schema_func enc) (schema_group enc) fn s ''Avro''
                   (or_empty ro)]) \<or>
             (\<exists>k. repeated_keyword
                    [''content'', ''raw_input_schema'', ''schema_id'', ''message_type''] kw =
                    Some k \<and>
                  e = TypeError (multiple_values_msg k)) \<or>
             (\<exists>sid. repeated_keyword
                      [''content'', ''raw_input_schema'', ''schema_id'', ''message_type''] kw =
                      None \<and>
                    create_message_content U (avro_encoder enc) content s sid mt kw =
                      Inl e))))) \<and>
   (\<forall>e fw'. undelete_path K E self name did kw' fw = (Inl e, fw') \<longrightarrow>
      (\<exists>k. k \<in> {''undelete_source'', ''cls''} \<and> k \<in> keys kw' \<and>
            e = TypeError (multiple_values_msg k) \<and> fw' = fw) \<or>
      ({''undelete_source'', ''cls''} \<inter> keys kw' = {} \<and>
       (\<exists>pc e0.
          requests fw' = requests fw @
            [PathUndelete pc (snd (snd (undelete_path_options E self name did))) kw'] \<and>
          e = (if is_http_response_error e0 then process_storage_error E e0 else e0) \<and>
          (path_undelete E pc (snd (snd (undelete_path_options E self name did))) kw'
             (service fw) = (Inl e0, service fw') \<or>
           (\<exists>is_file.
              path_undelete E pc (snd (snd (undelete_path_options E self name did))) kw'
                (service fw) = (Inr is_file, service fw') \<and>
              (if is_file then DataLakeFileClient_new K (child_arguments E self (PStr name))
               else DataLakeDirectoryClient_new K (child_arguments E self (PStr name))) =
                Inl e0)))))"
proof (intro conjI impI allI)
  assume "no_group (schema_group enc)"
  then show "encode U enc content s mt ro kw w = (Inl (TypeError group_name_msg), w)"
    by (rule encode_without_group)
next
  fix e w'
  assume "\<not> no_group (schema_group enc)"
    and "encode U enc content s mt ro kw w = (Inl e, w')"
  from encode_error [OF this(2,1)]
  show "(validate_schema U (avro_encoder enc) s = Inl e \<and> w' = w) \<or>
         (\<exists>fn. validate_schema U (avro_encoder enc) s = Inr fn \<and>
            ((\<not> list_all (\<lambda>kv. hashable (snd kv)) (or_empty ro) \<and>
              e = TypeError unhashable_msg \<and> w' = w) \<or>
             (\<exists>k. repeated_keyword [''self'', ''schema_name'', ''schema_str''] (or_empty ro) =
                    Some k \<and>
                  e = TypeError (multiple_argument_msg k) \<and>
                  calls w' = calls w \<and> registry w' = registry w) \<or>
             (repeated_keyword [''self'', ''schema_name'', ''schema_str''] (or_empty ro) =
                None \<and>
              registry_method enc (schema_group enc) fn s ''Avro'' (or_empty ro) (registry w) =
                (Inl e, registry w') \<and>
              calls w' = calls w @
                [CallRegistry (auto_register_schema_func enc) (schema_group enc) fn s ''Avro''
                   (or_empty ro)]) \<or>
             (\<exists>k. repeated_keyword
                    [''content'', ''raw_input_schema'', ''schema_id'', ''message_type''] kw =
                    Some k \<and>
                  e = TypeError (multiple_values_msg k)) \<or>
             (\<exists>sid. repeated_keyword
                      [''content'', ''raw_input_schema'', ''schema_id'', ''message_type''] kw =
                      None \<and>
                    create_message_content U (avro_encoder enc) content s sid mt kw =
                      Inl e)))" .
next
  fix e fw'
  assume "undelete_path K E self name did kw' fw = (Inl e, fw')"
  from undelete_path_error [OF this]
  show "(\<exists>k. k \<in> {''undelete_source'', ''cls''} \<and> k \<in> keys kw' \<and>
            e = TypeError (multiple_values_msg k) \<and> fw' = fw) \<or>
      ({''undelete_source'', ''cls''} \<inter> keys kw' = {} \<and>
       (\<exists>pc e0.
          requests fw' = requests fw @
            [PathUndelete pc (snd (snd (undelete_path_options E self name did))) kw'] \<and>
          e = (if is_http_response_error e0 then process_storage_error E e0 else e0) \<and>
          (path_undelete E pc (snd (snd (undelete_path_options E self name did))) kw'
             (service fw) = (Inl e0, service fw') \<or>
           (\<exists>is_file.
              path_undelete E pc (snd (snd (undelete_path_options E self name did))) kw'
                (service fw) = (Inr is_file, service fw') \<and>
              (if is_file then DataLakeFileClient_new K (child_arguments E self (PStr name))
               else DataLakeDirectoryClient_new K (child_arguments E self (PStr name))) =
                Inl e0))))" .
qed

theorem encode_and_undelete_error_origins_witness:
  "encode ref_utils nogroup_encoder (PDict []) ''rec'' None None [] (init_world []) =
     (Inl (TypeError group_name_msg), init_world []) \<and>
   (\<exists>w'. encode ref_utils (demo_encoder False) (PDict []) ''rec'' None None []
            (init_world []) = (Inl not_found, w') \<and>
         calls w' = [CallRegistry GetSchemaProperties (Some ''g'') ''ns.rec'' ''rec'' ''Avro'' []]) \<and>
   (\<exists>w'. encode ref_utils (demo_encoder False) (PDict []) ''rec'' None
            (Some [(''schema_name'', PStr ''x'')]) [] (init_world []) =
            (Inl (TypeError (multiple_argument_msg ''schema_name'')), w') \<and>
         calls w' = []) \<and>
   (\<exists>fw' pc. undelete_path demo_child_classes demo_env demo_client ''d/f'' ''123'' []
               demo_world = (Inl (HttpResponseError 404 ''PathNotFound''), fw') \<and>
            requests fw' = [PathUndelete pc (PStr ''d/f?deletionid=123'') []]) \<and>
   undelete_path demo_child_classes demo_env demo_client ''d/f'' ''123'' [(''cls'', PInt 1)]
     demo_world = (Inl (TypeError (multiple_values_msg ''cls'')), demo_world) \<and>
   (\<exists>fw' pc. undelete_path demo_child_classes demo_restoring_env demo_client ''//'' ''123'' []
               demo_world = (Inl (ValueError specify_path_msg), fw') \<and>
            requests fw' = [PathUndelete pc (PStr ''//?deletionid=123'') []])"
proof -
  let ?w = "init_world ([] :: ref_registry)"
  let ?e = "demo_encoder False"
  let ?ro = "Some [(''schema_name'', PStr ''x'')]"
  let ?clash = "TypeError (multiple_argument_msg ''schema_name'')"
  have g0: "no_group (schema_group nogroup_encoder)"
    by (simp add: no_group_def nogroup_encoder_def)
  have g1: "\<not> no_group (schema_group ?e)"
    by (simp add: no_group_def demo_encoder_def)
  have sg: "schema_group ?e = Some ''g''" "avro_encoder ?e = None"
    "auto_register_schema_func ?e = GetSchemaProperties"
    by (simp_all add: demo_encoder_def)
  have v: "validate_schema ref_utils None ''rec'' = Inr ''ns.rec''"
    by (simp add: ref_utils_def)
  have h: "list_all (\<lambda>kv. hashable (snd kv)) (or_empty None)" "or_empty None = []"
    "list_all (\<lambda>kv. hashable (snd kv)) (or_empty ?ro)"
    by (simp_all add: or_empty_def)
  have rk: "repeated_keyword [''self'', ''schema_name'', ''schema_str''] (or_empty None) = None"
    "repeated_keyword [''self'', ''schema_name'', ''schema_str''] (or_empty ?ro) =
       Some ''schema_name''"
    "repeated_keyword [''content'', ''raw_input_schema'', ''schema_id'', ''message_type''] [] =
       None"
    by (simp_all add: repeated_keyword_def or_empty_def)
  have cm: "\<forall>sid. create_message_content ref_utils None (PDict []) ''rec'' sid None [] \<noteq>
      Inl not_found"
    "\<forall>sid. create_message_content ref_utils None (PDict []) ''rec'' sid None [] \<noteq>
      Inl ?clash"
    by (simp_all add: ref_utils_def not_found_def)
  have ne: "not_found \<noteq> TypeError unhashable_msg" "?clash \<noteq> TypeError unhashable_msg"
    by (simp_all add: not_found_def multiple_argument_msg_def unhashable_msg_def)
  have cw: "calls ?w = []" "registry ?w = []"
    by (simp_all add: init_world_def)
  obtain w1 where en: "encode ref_utils ?e (PDict []) ''rec'' None None [] ?w =
      (Inl not_found, w1)"
    by (simp add: encode_def get_schema_id_def call_registry_func_def demo_encoder_def
        init_world_def lru_empty_def lru_find_def ref_client_def ref_utils_def
        ref_get_schema_properties_def no_group_def or_empty_def repeated_keyword_def Let_def)
  obtain w2 where ec: "encode ref_utils ?e (PDict []) ''rec'' None ?ro [] ?w = (Inl ?clash, w2)"
    by (simp add: encode_def get_schema_id_def demo_encoder_def
        init_world_def lru_empty_def lru_find_def ref_utils_def
        no_group_def or_empty_def repeated_keyword_def Let_def)
  obtain fw1 where un: "undelete_path demo_child_classes demo_env demo_client ''d/f'' ''123'' []
      demo_world = (Inl (HttpResponseError 404 ''PathNotFound''), fw1)"
    by (simp add: undelete_path_def demo_env_def bind_keywords_def
        is_http_response_error_def Let_def)
  obtain e2 fw2 where uc: "undelete_path demo_child_classes demo_env demo_client ''d/f'' ''123''
      [(''cls'', PInt 1)] demo_world = (Inl e2, fw2)"
    by (simp add: undelete_path_def demo_env_def bind_keywords_def
        is_http_response_error_def Let_def)
  obtain fw3 where ur: "undelete_path demo_child_classes demo_restoring_env demo_client ''//''
      ''123'' [] demo_world = (Inl (ValueError specify_path_msg), fw3)"
    by (simp add: undelete_path_def demo_restoring_env_def demo_env_def bind_keywords_def
        is_http_response_error_def get_file_client_def demo_child_classes_def
        demo_path_init_def child_arguments_def name_of_def py_str_def strip_slashes_def
        demo_client_def Let_def)
  have o: "snd (snd (undelete_path_options demo_env demo_client ''d/f'' ''123'')) =
      PStr ''d/f?deletionid=123''"
    "snd (snd (undelete_path_options demo_restoring_env demo_client ''//'' ''123'')) =
      PStr ''//?deletionid=123''"
    by (simp_all add: demo_restoring_env_def demo_env_def)
  have ks: "keys [] = {}" "keys [(''cls'', PInt 1)] = {''cls''}"
    by (simp_all add: keys_def)
  have rq: "requests demo_world = []"
    by (simp add: demo_world_def)
  note T = encode_and_undelete_error_origins
  from T [where enc = nogroup_encoder and U = ref_utils and w = ?w, THEN conjunct1] g0
  have a: "encode ref_utils nogroup_encoder (PDict []) ''rec'' None None [] ?w =
      (Inl (TypeError group_name_msg), ?w)"
    by blast
  from T [where enc = ?e and U = ref_utils and w = ?w and content = "PDict []" and s = "''rec''"
       and mt = None and ro = None and kw = "[]", THEN conjunct2, THEN conjunct1, rule_format,
       OF g1 en]
  have "calls w1 = calls ?w @
      [CallRegistry (auto_register_schema_func ?e) (schema_group ?e) ''ns.rec'' ''rec'' ''Avro''
         (or_empty None)]"
    using v h rk cm ne by (auto simp: sg)
  then have b: "calls w1 =
      [CallRegistry GetSchemaProperties (Some ''g'') ''ns.rec'' ''rec'' ''Avro'' []]"
    by (simp add: sg h cw)
  from T [where enc = ?e and U = ref_utils and w = ?w and content = "PDict []" and s = "''rec''"
       and mt = None and ro = ?ro and kw = "[]", THEN conjunct2, THEN conjunct1, rule_format,
       OF g1 ec]
  have "calls w2 = calls ?w"
    using v h rk cm ne by (auto simp: sg)
  then have c: "calls w2 = []"
    by (simp add: cw)
  from T [where K = demo_child_classes and E = demo_env and self = demo_client
       and fw = demo_world and name = "''d/f''" and did = "''123''" and kw' = "[]",
       THEN conjunct2, THEN conjunct2, rule_format, OF un]
  obtain pc where d: "requests fw1 = requests demo_world @
      [PathUndelete pc (snd (snd (undelete_path_options demo_env demo_client ''d/f'' ''123'')))
         []]"
    using ks by auto
  from T [where K = demo_child_classes and E = demo_env and self = demo_client
       and fw = demo_world and name = "''d/f''" and did = "''123''"
       and kw' = "[(''cls'', PInt 1)]",
       THEN conjunct2, THEN conjunct2, rule_format, OF uc]
  have f: "e2 = TypeError (multiple_values_msg ''cls'') \<and> fw2 = demo_world"
    using ks by auto
  from T [where K = demo_child_classes and E = demo_restoring_env and self = demo_client
       and fw = demo_world and name = "''//''" and did = "''123''" and kw' = "[]",
       THEN conjunct2, THEN conjunct2, rule_format, OF ur]
  obtain pc' where g: "requests fw3 = requests demo_world @
      [PathUndelete pc'
         (snd (snd (undelete_path_options demo_restoring_env demo_client ''//'' ''123''))) []]"
    using ks by auto
  from un d o rq
  have p1: "\<exists>fw' pc. undelete_path demo_child_classes demo_env demo_client ''d/f'' ''123'' []
               demo_world = (Inl (HttpResponseError 404 ''PathNotFound''), fw') \<and>
            requests fw' = [PathUndelete pc (PStr ''d/f?deletionid=123'') []]"
    by auto
  from ur g o rq
  have p2: "\<exists>fw' pc. undelete_path demo_child_classes demo_restoring_env demo_client ''//''
               ''123'' [] demo_world = (Inl (ValueError specify_path_msg), fw') \<and>
            requests fw' = [PathUndelete pc (PStr ''//?deletionid=123'') []]"
    by auto
  from a en b ec c uc f p1 p2 show ?thesis
    by auto
qed

end
